theory Spec2Isabelle
  imports Complex_Main
begin

section \<open>Domain types (types.ts)\<close>

text \<open>
  \<open>FoodCategory\<close> and \<open>FoodColor\<close> are closed unions of string literals in the source;
  each becomes a datatype whose constructors carry the keys of \<open>FOOD_CATEGORIES\<close> and
  \<open>FOOD_COLORS\<close>.
\<close>

datatype FoodCategory = WHOLE_GRAINS | NUTS_SEEDS | FRUITS | VEGETABLES | LEGUMES | HERBS_SPICES

datatype FoodColor = RED | ORANGE | YELLOW | GREEN | BLUE_PURPLE | WHITE_TAN

text \<open>
  A valid JavaScript \<open>Date\<close> object is modelled by its time value: the number of
  milliseconds since the epoch in UTC, an integer. Where a \<open>Date\<close> may be the Invalid Date
  (time value \<open>NaN\<close>), as the result of a setter is, it is a \<open>Date option\<close>, and
  \<open>None\<close> is the Invalid Date. The dates stored in the records below, and the arguments of
  the functions, are valid dates.
\<close>

type_synonym Date = int

text \<open>
  Point values are multiples of a quarter. Binary floating point represents and adds these
  exactly (far beyond any array length), so the source's \<open>number\<close> is a rational here.
\<close>

definition CATEGORY_POINT_VALUES :: "FoodCategory \<Rightarrow> rat" where
  "CATEGORY_POINT_VALUES c =
     (case c of
        WHOLE_GRAINS \<Rightarrow> 1
      | NUTS_SEEDS \<Rightarrow> 1
      | FRUITS \<Rightarrow> 1
      | VEGETABLES \<Rightarrow> 1
      | LEGUMES \<Rightarrow> 1
      | HERBS_SPICES \<Rightarrow> 1 / 4)"

record CategoryBreakdown =
  whole_grains :: rat
  nuts_seeds :: rat
  fruits :: rat
  vegetables :: rat
  legumes :: rat
  herbs_spices :: rat

text \<open>
  The records of the other modules. Several of them share field names, as the structurally
  typed interfaces of the source do; the record declared last owns the short name and the
  others are written qualified.
\<close>

record FoodForPoints =
  foodId :: string
  category :: FoodCategory

record FoodWithColor =
  color :: FoodColor
  loggedDate :: Date

record ArchivedWeek =
  weekStart :: Date
  weekEnd :: Date
  totalPoints :: rat
  goalAchieved :: bool

text \<open>
  \<open>NewFood\<close> is the source's \<open>Omit<WeeklyFoodInstance, 'instanceId' | 'firstLoggedDate'>\<close>;
  \<open>WeeklyFoodInstance\<close> extends it by the two omitted fields. The optional field
  \<open>firstLoggedDate?\<close> is an option: \<open>None\<close> is \<open>undefined\<close>.
\<close>

record NewFood =
  foodId :: string
  foodName :: string
  category :: FoodCategory
  color :: FoodColor
  isFermented :: bool
  loggedDate :: Date
  pointValue :: rat

record WeeklyFoodInstance = NewFood +
  instanceId :: string
  firstLoggedDate :: "Date option"

record AddFoodResult =
  foods :: "WeeklyFoodInstance list"
  isNewFood :: bool
  isDuplicateInstance :: bool

section \<open>Weekly log (weekly.ts)\<close>

text \<open>
  The source's private function \<open>isDuplicateInstance\<close>; the suffix keeps it apart from the
  field of the same name in \<open>AddFoodResult\<close>. \<open>Array.prototype.some\<close> is \<open>list_ex\<close>,
  \<open>Array.prototype.find\<close> is \<open>find\<close>.
\<close>

definition isDuplicateInstance_fn :: "WeeklyFoodInstance list \<Rightarrow> NewFood \<Rightarrow> bool" where
  "isDuplicateInstance_fn existingFoods newFood =
     list_ex (\<lambda>food. foodId food = foodId newFood \<and>
                      color food = color newFood \<and>
                      isFermented food = isFermented newFood) existingFoods"

definition getFirstLoggedDate :: "WeeklyFoodInstance list \<Rightarrow> string \<Rightarrow> Date option" where
  "getFirstLoggedDate existingFoods fid =
     (case find (\<lambda>food. foodId food = fid) existingFoods of
        None \<Rightarrow> None
      | Some existingFood \<Rightarrow> firstLoggedDate existingFood)"

text \<open>
  \<open>crypto.randomUUID()\<close> is the only effect of \<open>addFoodToWeek\<close>; the string it returns on
  this call is the parameter \<open>uuid\<close>. A \<open>Date\<close> object is always truthy, so
  \<open>firstLoggedDate || newFood.loggedDate\<close> takes the right operand exactly when the left one
  is \<open>undefined\<close>. The spread \<open>...newFood\<close> copies the seven fields of the candidate.
\<close>

definition addFoodToWeek :: "WeeklyFoodInstance list \<Rightarrow> NewFood \<Rightarrow> string \<Rightarrow> AddFoodResult" where
  "addFoodToWeek existingFoods newFood uuid =
     (if isDuplicateInstance_fn existingFoods newFood then
        \<lparr>foods = existingFoods, isNewFood = False, isDuplicateInstance = True\<rparr>
      else
        let firstLogged = getFirstLoggedDate existingFoods (foodId newFood);
            isNew = (firstLogged = None);
            newInstance =
              \<lparr>foodId = foodId newFood, foodName = foodName newFood,
               category = category newFood, color = color newFood,
               isFermented = isFermented newFood, loggedDate = loggedDate newFood,
               pointValue = pointValue newFood,
               instanceId = uuid,
               firstLoggedDate =
                 Some (case firstLogged of Some d \<Rightarrow> d | None \<Rightarrow> loggedDate newFood)\<rparr>
        in \<lparr>foods = existingFoods @ [newInstance], isNewFood = isNew,
            isDuplicateInstance = False\<rparr>)"

definition hasFoodBeenLogged :: "WeeklyFoodInstance list \<Rightarrow> string \<Rightarrow> bool" where
  "hasFoodBeenLogged existingFoods fid = list_ex (\<lambda>food. foodId food = fid) existingFoods"

section \<open>Points (points.ts)\<close>

definition getPointValue :: "FoodCategory \<Rightarrow> rat" where
  "getPointValue c = CATEGORY_POINT_VALUES c"

text \<open>\<open>Array.prototype.reduce\<close> with an initial value is a left fold.\<close>

definition calculateWeeklyPoints :: "FoodForPoints list \<Rightarrow> rat" where
  "calculateWeeklyPoints fs =
     foldl (\<lambda>total food. total + getPointValue (FoodForPoints.category food)) 0 fs"

text \<open>
  \<open>breakdown[c]\<close> and \<open>breakdown[c] += v\<close> on the six-key object: the key selects the
  field.
\<close>

definition breakdown_get :: "CategoryBreakdown \<Rightarrow> FoodCategory \<Rightarrow> rat" where
  "breakdown_get b c =
     (case c of
        WHOLE_GRAINS \<Rightarrow> whole_grains b
      | NUTS_SEEDS \<Rightarrow> nuts_seeds b
      | FRUITS \<Rightarrow> fruits b
      | VEGETABLES \<Rightarrow> vegetables b
      | LEGUMES \<Rightarrow> legumes b
      | HERBS_SPICES \<Rightarrow> herbs_spices b)"

definition breakdown_add :: "CategoryBreakdown \<Rightarrow> FoodCategory \<Rightarrow> rat \<Rightarrow> CategoryBreakdown" where
  "breakdown_add b c v =
     (case c of
        WHOLE_GRAINS \<Rightarrow> b\<lparr>whole_grains := whole_grains b + v\<rparr>
      | NUTS_SEEDS \<Rightarrow> b\<lparr>nuts_seeds := nuts_seeds b + v\<rparr>
      | FRUITS \<Rightarrow> b\<lparr>fruits := fruits b + v\<rparr>
      | VEGETABLES \<Rightarrow> b\<lparr>vegetables := vegetables b + v\<rparr>
      | LEGUMES \<Rightarrow> b\<lparr>legumes := legumes b + v\<rparr>
      | HERBS_SPICES \<Rightarrow> b\<lparr>herbs_spices := herbs_spices b + v\<rparr>)"

definition calculateCategoryBreakdown :: "FoodForPoints list \<Rightarrow> CategoryBreakdown" where
  "calculateCategoryBreakdown fs =
     fold (\<lambda>food breakdown.
             breakdown_add breakdown (FoodForPoints.category food)
               (getPointValue (FoodForPoints.category food)))
          fs
          \<lparr>whole_grains = 0, nuts_seeds = 0, fruits = 0, vegetables = 0, legumes = 0,
           herbs_spices = 0\<rparr>"

text \<open>The sum of the values of the breakdown object.\<close>

definition breakdown_sum :: "CategoryBreakdown \<Rightarrow> rat" where
  "breakdown_sum b =
     whole_grains b + nuts_seeds b + fruits b + vegetables b + legumes b + herbs_spices b"

section \<open>Dates of the platform (ECMA-262, Date objects)\<close>

text \<open>
  The calendar functions of the source call \<open>Date.prototype\<close> methods that work in local
  time. They are modelled by the abstract operations of ECMA-262 (section "Date Objects"),
  with their names. The time zone of the platform is the parameter \<open>tza\<close>, the
  operation \<open>LocalTZA(t, isUTC)\<close> of ECMA-262: for a UTC time value \<open>t\<close>,
  \<open>tza t True\<close> is the offset of local time in effect at that instant, in milliseconds; for
  a local time value \<open>t\<close>, \<open>tza t False\<close> is the offset by which the platform reads it,
  the one before the transition when a transition skips or repeats that local time. Any time
  zone is such a function; one whose offset never changes is a constant function.
\<close>

type_synonym TimeZone = "int \<Rightarrow> bool \<Rightarrow> int"

definition msPerDay :: int where "msPerDay = 86400000"
definition msPerHour :: int where "msPerHour = 3600000"
definition msPerMinute :: int where "msPerMinute = 60000"
definition msPerSecond :: int where "msPerSecond = 1000"

definition Day :: "int \<Rightarrow> int" where "Day t = t div msPerDay"
definition TimeWithinDay :: "int \<Rightarrow> int" where "TimeWithinDay t = t mod msPerDay"

definition DaysInYear :: "int \<Rightarrow> int" where
  "DaysInYear y =
     (if y mod 4 \<noteq> 0 then 365
      else if y mod 100 \<noteq> 0 then 366
      else if y mod 400 \<noteq> 0 then 365
      else 366)"

definition DayFromYear :: "int \<Rightarrow> int" where
  "DayFromYear y =
     365 * (y - 1970) + (y - 1969) div 4 - (y - 1901) div 100 + (y - 1601) div 400"

text \<open>
  \<open>YearFromTime t\<close> is the largest \<open>y\<close> with \<open>DayFromYear y \<le> Day t\<close>. It is computed from
  the estimate given by the mean length of a year, which is off by at most one.
\<close>

definition YearFromTime :: "int \<Rightarrow> int" where
  "YearFromTime t =
     (let d = Day t; y = 1970 + (400 * d) div 146097
      in if DayFromYear (y + 1) \<le> d then y + 1
         else if DayFromYear y \<le> d then y
         else y - 1)"

definition InLeapYear :: "int \<Rightarrow> int" where
  "InLeapYear t = (if DaysInYear (YearFromTime t) = 366 then 1 else 0)"

definition DayWithinYear :: "int \<Rightarrow> int" where
  "DayWithinYear t = Day t - DayFromYear (YearFromTime t)"

text \<open>The day within the year on which month \<open>m\<close> (0 to 11) starts; \<open>leap\<close> is 0 or 1.\<close>

definition MonthStartDay :: "int \<Rightarrow> int \<Rightarrow> int" where
  "MonthStartDay m leap =
     (if m = 0 then 0
      else if m = 1 then 31
      else if m = 2 then 59 + leap
      else if m = 3 then 90 + leap
      else if m = 4 then 120 + leap
      else if m = 5 then 151 + leap
      else if m = 6 then 181 + leap
      else if m = 7 then 212 + leap
      else if m = 8 then 243 + leap
      else if m = 9 then 273 + leap
      else if m = 10 then 304 + leap
      else 334 + leap)"

definition MonthFromTime :: "int \<Rightarrow> int" where
  "MonthFromTime t =
     (let d = DayWithinYear t; leap = InLeapYear t
      in if d < 31 then 0
         else if d < 59 + leap then 1
         else if d < 90 + leap then 2
         else if d < 120 + leap then 3
         else if d < 151 + leap then 4
         else if d < 181 + leap then 5
         else if d < 212 + leap then 6
         else if d < 243 + leap then 7
         else if d < 273 + leap then 8
         else if d < 304 + leap then 9
         else if d < 334 + leap then 10
         else 11)"

definition DateFromTime :: "int \<Rightarrow> int" where
  "DateFromTime t = DayWithinYear t - MonthStartDay (MonthFromTime t) (InLeapYear t) + 1"

definition WeekDay :: "int \<Rightarrow> int" where "WeekDay t = (Day t + 4) mod 7"

definition HourFromTime :: "int \<Rightarrow> int" where "HourFromTime t = (t div msPerHour) mod 24"
definition MinFromTime :: "int \<Rightarrow> int" where "MinFromTime t = (t div msPerMinute) mod 60"
definition SecFromTime :: "int \<Rightarrow> int" where "SecFromTime t = (t div msPerSecond) mod 60"
definition msFromTime :: "int \<Rightarrow> int" where "msFromTime t = t mod msPerSecond"

definition MakeTime :: "int \<Rightarrow> int \<Rightarrow> int \<Rightarrow> int \<Rightarrow> int" where
  "MakeTime h m s milli = h * msPerHour + m * msPerMinute + s * msPerSecond + milli"

definition MakeDay :: "int \<Rightarrow> int \<Rightarrow> int \<Rightarrow> int" where
  "MakeDay y m dt =
     (let ym = y + m div 12; mn = m mod 12
      in DayFromYear ym + MonthStartDay mn (if DaysInYear ym = 366 then 1 else 0) + dt - 1)"

definition MakeDate :: "int \<Rightarrow> int \<Rightarrow> int" where
  "MakeDate day time = day * msPerDay + time"

definition LocalTime :: "TimeZone \<Rightarrow> int \<Rightarrow> int" where
  "LocalTime tza t = t + tza t True"

definition UTC :: "TimeZone \<Rightarrow> int \<Rightarrow> int" where
  "UTC tza t = t - tza t False"

text \<open>A time value beyond 8.64e15 milliseconds from the epoch is clipped to \<open>NaN\<close>.\<close>

definition TimeClip :: "int \<Rightarrow> Date option" where
  "TimeClip time = (if \<bar>time\<bar> > 8640000000000000 then None else Some time)"

text \<open>
  The methods of \<open>Date.prototype\<close>, on a valid date. A setter returns the updated object,
  which is the Invalid Date when the new time value is clipped.
\<close>

definition getTime :: "Date \<Rightarrow> int" where "getTime d = d"
definition getFullYear :: "TimeZone \<Rightarrow> Date \<Rightarrow> int" where
  "getFullYear tza d = YearFromTime (LocalTime tza d)"
definition getMonth :: "TimeZone \<Rightarrow> Date \<Rightarrow> int" where
  "getMonth tza d = MonthFromTime (LocalTime tza d)"
definition getDate :: "TimeZone \<Rightarrow> Date \<Rightarrow> int" where
  "getDate tza d = DateFromTime (LocalTime tza d)"
definition getDay :: "TimeZone \<Rightarrow> Date \<Rightarrow> int" where
  "getDay tza d = WeekDay (LocalTime tza d)"
definition getHours :: "TimeZone \<Rightarrow> Date \<Rightarrow> int" where
  "getHours tza d = HourFromTime (LocalTime tza d)"
definition getMinutes :: "TimeZone \<Rightarrow> Date \<Rightarrow> int" where
  "getMinutes tza d = MinFromTime (LocalTime tza d)"
definition getSeconds :: "TimeZone \<Rightarrow> Date \<Rightarrow> int" where
  "getSeconds tza d = SecFromTime (LocalTime tza d)"
definition getMilliseconds :: "TimeZone \<Rightarrow> Date \<Rightarrow> int" where
  "getMilliseconds tza d = msFromTime (LocalTime tza d)"

definition setDate :: "TimeZone \<Rightarrow> Date \<Rightarrow> int \<Rightarrow> Date option" where
  "setDate tza d dt =
     (let t = LocalTime tza d;
          newDate = MakeDate (MakeDay (YearFromTime t) (MonthFromTime t) dt) (TimeWithinDay t)
      in TimeClip (UTC tza newDate))"

definition setHours :: "TimeZone \<Rightarrow> Date \<Rightarrow> int \<Rightarrow> int \<Rightarrow> int \<Rightarrow> int \<Rightarrow> Date option" where
  "setHours tza d h m s milli =
     (let t = LocalTime tza d;
          date' = MakeDate (Day t) (MakeTime h m s milli)
      in TimeClip (UTC tza date'))"

section \<open>Calendar (dates.ts)\<close>

text \<open>
  Once \<open>result\<close> is the Invalid Date it stays so: its getters return \<open>NaN\<close>, and a setter
  called on the Invalid Date, or with \<open>NaN\<close>, leaves the time value \<open>NaN\<close>. That is the
  \<open>None\<close> branch of each \<open>case\<close>.
\<close>

definition getWeekStart :: "TimeZone \<Rightarrow> Date \<Rightarrow> Date option" where
  "getWeekStart tza d =
     (let result = d;
          day = getDay tza result;
          daysToSubtract = (if day = 0 then 6 else day - 1)
      in case setDate tza result (getDate tza result - daysToSubtract) of
           None \<Rightarrow> None
         | Some result \<Rightarrow> setHours tza result 0 0 0 0)"

definition getWeekEnd :: "TimeZone \<Rightarrow> Date \<Rightarrow> Date option" where
  "getWeekEnd tza d =
     (case getWeekStart tza d of
        None \<Rightarrow> None
      | Some ws \<Rightarrow>
          (let we = ws
           in case setDate tza we (getDate tza we + 6) of
                None \<Rightarrow> None
              | Some we \<Rightarrow> setHours tza we 23 59 59 999))"

definition isSameDay :: "TimeZone \<Rightarrow> Date \<Rightarrow> Date \<Rightarrow> bool" where
  "isSameDay tza a b \<longleftrightarrow>
     getFullYear tza a = getFullYear tza b \<and>
     getMonth tza a = getMonth tza b \<and>
     getDate tza a = getDate tza b"

section \<open>Colors (colors.ts)\<close>

text \<open>
  A JavaScript \<open>Set\<close> keeps its elements in insertion order and \<open>add\<close> ignores an element
  that is already there; \<open>Array.from\<close> lists the elements in that order. The set is the list
  of its elements.
\<close>

definition Set_add :: "'a list \<Rightarrow> 'a \<Rightarrow> 'a list" where
  "Set_add s x = (if x \<in> set s then s else s @ [x])"

definition calculateWeeklyColors :: "FoodWithColor list \<Rightarrow> FoodColor list" where
  "calculateWeeklyColors fs =
     fold (\<lambda>food uniqueColors. Set_add uniqueColors (FoodWithColor.color food)) fs []"

definition calculateDailyColors :: "TimeZone \<Rightarrow> FoodWithColor list \<Rightarrow> Date \<Rightarrow> FoodColor list" where
  "calculateDailyColors tza fs d =
     (let targetYear = getFullYear tza d;
          targetMonth = getMonth tza d;
          targetDay = getDate tza d
      in fold (\<lambda>food uniqueColors.
                 let foodYear = getFullYear tza (FoodWithColor.loggedDate food);
                     foodMonth = getMonth tza (FoodWithColor.loggedDate food);
                     foodDay = getDate tza (FoodWithColor.loggedDate food)
                 in if foodYear = targetYear \<and> foodMonth = targetMonth \<and> foodDay = targetDay
                    then Set_add uniqueColors (FoodWithColor.color food)
                    else uniqueColors)
              fs [])"

definition hasAllColors :: "FoodColor list \<Rightarrow> bool" where
  "hasAllColors colors \<longleftrightarrow> length colors = 6"

section \<open>Streak (streak.ts)\<close>

definition areConsecutiveWeeks :: "ArchivedWeek \<Rightarrow> ArchivedWeek \<Rightarrow> bool" where
  "areConsecutiveWeeks recentWeek olderWeek =
     (let recentMonday = getTime (weekStart recentWeek);
          olderMonday = getTime (weekStart olderWeek);
          oneWeekMs = 7 * 24 * 60 * 60 * 1000
      in recentMonday - olderMonday = oneWeekMs)"

text \<open>
  The \<open>for\<close> loop of \<open>calculateStreak\<close>, with its two \<open>break\<close>s: the state is the index
  \<open>i\<close> and the counter \<open>streak\<close>.
\<close>

function calculateStreak_loop :: "ArchivedWeek list \<Rightarrow> nat \<Rightarrow> nat \<Rightarrow> nat" where
  "calculateStreak_loop archivedWeeks i streak =
     (if i < length archivedWeeks then
        (let week = archivedWeeks ! i
         in if \<not> goalAchieved week then streak
            else if i > 0 \<and> \<not> areConsecutiveWeeks (archivedWeeks ! (i - 1)) week then streak
            else calculateStreak_loop archivedWeeks (i + 1) (streak + 1))
      else streak)"
  by pat_completeness auto
termination
  by (relation "measure (\<lambda>(archivedWeeks, i, streak). length archivedWeeks - i)") auto

definition calculateStreak :: "ArchivedWeek list \<Rightarrow> nat" where
  "calculateStreak archivedWeeks =
     (if length archivedWeeks = 0 then 0 else calculateStreak_loop archivedWeeks 0 0)"

section \<open>Daily store (dailyStore.ts)\<close>

definition WATER_TARGET :: real where "WATER_TARGET = 8"








section \<open>Notions of the specification and sample data\<close>

text \<open>The (food identifier, color, fermentation flag) triple that defines a duplicate.\<close>

definition triple :: "'a NewFood_scheme \<Rightarrow> string \<times> FoodColor \<times> bool" where
  "triple food = (foodId food, color food, isFermented food)"

text \<open>
  The earliest \<open>firstLoggedDate\<close> recorded in the list for a food identifier, following
  the specification's words: the least of the recorded dates of the instances that carry the
  identifier, \<open>None\<close> when there is none.
\<close>

definition earliestFirstLoggedDate :: "WeeklyFoodInstance list \<Rightarrow> string \<Rightarrow> Date option" where
  "earliestFirstLoggedDate existingFoods fid =
     (case List.map_filter
             (\<lambda>food. if foodId food = fid then firstLoggedDate food else None) existingFoods of
        [] \<Rightarrow> None
      | d # ds \<Rightarrow> Some (fold min ds d))"

text \<open>
  The state of a list that \<open>addFoodToWeek\<close> has built: every instance records a
  \<open>firstLoggedDate\<close>, and instances of one food identifier record the same one.
\<close>

definition sharedFirstLogged :: "WeeklyFoodInstance list \<Rightarrow> bool" where
  "sharedFirstLogged xs \<longleftrightarrow>
     list_all (\<lambda>f. firstLoggedDate f \<noteq> None \<and>
        list_all (\<lambda>g. foodId g \<noteq> foodId f \<or> firstLoggedDate g = firstLoggedDate f) xs) xs"

text \<open>
  Sample data, after the fixtures of weekly.test.ts: a cabbage candidate with a given color,
  fermentation flag and logged time, and a logged instance of a candidate with a given
  instance identifier and first logged date.
\<close>

definition cabbage :: "FoodColor \<Rightarrow> bool \<Rightarrow> Date \<Rightarrow> NewFood" where
  "cabbage c f t =
     \<lparr>foodId = ''cabbage'', foodName = ''Cabbage'', category = VEGETABLES, color = c,
      isFermented = f, loggedDate = t, pointValue = 1\<rparr>"

definition logged :: "NewFood \<Rightarrow> string \<Rightarrow> Date \<Rightarrow> WeeklyFoodInstance" where
  "logged n i t =
     \<lparr>foodId = foodId n, foodName = foodName n, category = category n, color = color n,
      isFermented = isFermented n, loggedDate = loggedDate n, pointValue = pointValue n,
      instanceId = i, firstLoggedDate = Some t\<rparr>"

text \<open>
  A prefix of the archive that counts towards the streak, following the specification's
  words: every entry of the prefix has its goal achieved, and each entry after the first has
  a \<open>weekStart\<close> exactly seven days before the \<open>weekStart\<close> of the entry just before it.
\<close>

definition streak_prefix :: "ArchivedWeek list \<Rightarrow> nat \<Rightarrow> bool" where
  "streak_prefix weeks n \<longleftrightarrow>
     n \<le> length weeks \<and>
     (\<forall>i<n. goalAchieved (weeks ! i)) \<and>
     (\<forall>i<n. 0 < i \<longrightarrow>
        getTime (weekStart (weeks ! i)) = getTime (weekStart (weeks ! (i - 1))) - 7 * msPerDay)"

text \<open>The entry at index \<open>k\<close> stops the loop of \<open>calculateStreak\<close>.\<close>

definition breaks :: "ArchivedWeek list \<Rightarrow> nat \<Rightarrow> bool" where
  "breaks weeks k \<longleftrightarrow>
     \<not> goalAchieved (weeks ! k) \<or>
     (0 < k \<and> \<not> areConsecutiveWeeks (weeks ! (k - 1)) (weeks ! k))"

text \<open>
  More sample data: a food for the points functions, a colored entry for the color functions,
  an archived week built as \<open>createArchivedWeek\<close> of streak.test.ts builds it, and a state
  of the daily store with a given water count.
\<close>

definition food_of :: "string \<Rightarrow> FoodCategory \<Rightarrow> FoodForPoints" where
  "food_of i c = \<lparr>FoodForPoints.foodId = i, FoodForPoints.category = c\<rparr>"

definition colored :: "FoodColor \<Rightarrow> Date \<Rightarrow> FoodWithColor" where
  "colored c t = \<lparr>FoodWithColor.color = c, FoodWithColor.loggedDate = t\<rparr>"

definition archived :: "Date \<Rightarrow> rat \<Rightarrow> ArchivedWeek" where
  "archived monday points =
     \<lparr>weekStart = monday, weekEnd = monday + 7 * msPerDay - 1, totalPoints = points,
      goalAchieved = (points \<ge> 30)\<rparr>"


text \<open>
  The number of days \<open>getWeekStart\<close> goes back: the source's \<open>daysToSubtract\<close>.
\<close>

definition daysToMonday :: "TimeZone \<Rightarrow> Date \<Rightarrow> int" where
  "daysToMonday tza d = (if getDay tza d = 0 then 6 else getDay tza d - 1)"

text \<open>
  The local time values of the week of a date: local midnight of the Monday on or before it,
  and 23:59:59.999 of the Sunday six days later.
\<close>

definition weekStartLocal :: "TimeZone \<Rightarrow> Date \<Rightarrow> int" where
  "weekStartLocal tza d = (Day (LocalTime tza d) - daysToMonday tza d) * msPerDay"

definition weekEndLocal :: "TimeZone \<Rightarrow> Date \<Rightarrow> int" where
  "weekEndLocal tza d = weekStartLocal tza d + 6 * msPerDay + MakeTime 23 59 59 999"

text \<open>
  A local time value exists in a time zone when the instant by which the platform reads it
  is a time value in range whose local time it is. A local time that a transition skips does
  not exist; beyond the range of time values no local time does. A local time value is read
  on its own day when that instant is a time value in range whose local time falls on the
  same day, as it does for a local time that exists, and for one skipped by a transition
  that does not cross midnight.
\<close>

definition existsLocally :: "TimeZone \<Rightarrow> int \<Rightarrow> bool" where
  "existsLocally tza x \<longleftrightarrow>
     \<bar>UTC tza x\<bar> \<le> 8640000000000000 \<and> LocalTime tza (UTC tza x) = x"

definition readOnSameDay :: "TimeZone \<Rightarrow> int \<Rightarrow> bool" where
  "readOnSameDay tza x \<longleftrightarrow>
     \<bar>UTC tza x\<bar> \<le> 8640000000000000 \<and> Day (LocalTime tza (UTC tza x)) = Day x"

text \<open>
  Sample time zones. A zone of constant offset; the offsets of Europe/Berlin around the year
  2025, one hour east of UTC, two hours from 30 March 2025, 01:00 UTC, to 26 October 2025,
  01:00 UTC; and a zone whose clocks go from 00:00 to 01:00 at the start of Monday
  22 March 2021, from three and a half to four and a half hours east of UTC.
\<close>

definition fixedOffset :: "int \<Rightarrow> TimeZone" where
  "fixedOffset k = (\<lambda>t isUTC. k)"

definition europeBerlin2025 :: TimeZone where
  "europeBerlin2025 =
     (\<lambda>t isUTC.
        if isUTC then (if 1743296400000 \<le> t \<and> t < 1761440400000 then 7200000 else 3600000)
        else (if 1743303600000 \<le> t \<and> t < 1761447600000 then 7200000 else 3600000))"

definition midnightSkipZone :: TimeZone where
  "midnightSkipZone =
     (\<lambda>t isUTC.
        if isUTC then (if 1616358600000 \<le> t then 16200000 else 12600000)
        else (if 1616374800000 \<le> t then 16200000 else 12600000))"

declare calculateStreak_loop.simps [simp del]

section \<open>Weekly log: properties\<close>

lemmas weekly_eval =
  addFoodToWeek_def isDuplicateInstance_fn_def getFirstLoggedDate_def hasFoodBeenLogged_def
  Let_def logged_def cabbage_def

lemma isDuplicateInstance_fn_iff:
  "isDuplicateInstance_fn xs c \<longleftrightarrow> triple c \<in> triple ` set xs"
  unfolding isDuplicateInstance_fn_def triple_def list_ex_iff by (force simp: image_iff)

lemma isDuplicateInstance_fn_ex:
  "isDuplicateInstance_fn xs c \<longleftrightarrow>
     (\<exists>food\<in>set xs. foodId food = foodId c \<and> color food = color c \<and>
        isFermented food = isFermented c)"
  by (simp add: isDuplicateInstance_fn_def list_ex_iff)

lemma addFoodToWeek_dup:
  "isDuplicateInstance_fn xs c \<Longrightarrow>
   addFoodToWeek xs c u = \<lparr>foods = xs, isNewFood = False, isDuplicateInstance = True\<rparr>"
  by (simp add: addFoodToWeek_def)

lemma addFoodToWeek_foods_nodup:
  "\<not> isDuplicateInstance_fn xs c \<Longrightarrow>
   foods (addFoodToWeek xs c u) =
     xs @ [\<lparr>foodId = foodId c, foodName = foodName c, category = category c,
            color = color c, isFermented = isFermented c, loggedDate = loggedDate c,
            pointValue = pointValue c, instanceId = u,
            firstLoggedDate =
              Some (case getFirstLoggedDate xs (foodId c) of Some d \<Rightarrow> d
                    | None \<Rightarrow> loggedDate c)\<rparr>]"
  by (simp add: addFoodToWeek_def Let_def)

lemma addFoodToWeek_then_dup:
  assumes "triple c' = triple c"
  shows "isDuplicateInstance_fn (foods (addFoodToWeek xs c u)) c'"
proof (cases "isDuplicateInstance_fn xs c")
  case True
  then have "triple c \<in> triple ` set xs" by (simp add: isDuplicateInstance_fn_iff)
  with True assms show ?thesis
    by (simp add: addFoodToWeek_dup isDuplicateInstance_fn_iff)
next
  case False
  then show ?thesis using assms
    by (simp add: addFoodToWeek_foods_nodup isDuplicateInstance_fn_iff triple_def)
qed

text \<open>
  Claim C1. If some existing instance has the candidate's food identifier, color and
  fermentation flag, \<open>addFoodToWeek\<close> returns the input list itself with
  \<open>isDuplicateInstance = true\<close> and \<open>isNewFood = false\<close>. In particular a call with
  the triple of an earlier call, on the list that call returned, has this outcome, whatever
  the earlier call did.
\<close>

theorem addFoodToWeek_rejects_duplicate:
  "((\<exists>food\<in>set existingFoods. foodId food = foodId newFood \<and> color food = color newFood \<and>
        isFermented food = isFermented newFood) \<longrightarrow>
      addFoodToWeek existingFoods newFood uuid =
        \<lparr>foods = existingFoods, isNewFood = False, isDuplicateInstance = True\<rparr>) \<and>
   (foodId again = foodId newFood \<and> color again = color newFood \<and>
      isFermented again = isFermented newFood \<longrightarrow>
      addFoodToWeek (foods (addFoodToWeek existingFoods newFood uuid)) again uuid' =
        \<lparr>foods = foods (addFoodToWeek existingFoods newFood uuid), isNewFood = False,
         isDuplicateInstance = True\<rparr>)"
proof (intro conjI impI)
  assume "\<exists>food\<in>set existingFoods. foodId food = foodId newFood \<and>
            color food = color newFood \<and> isFermented food = isFermented newFood"
  then have "isDuplicateInstance_fn existingFoods newFood"
    by (simp add: isDuplicateInstance_fn_ex)
  then show "addFoodToWeek existingFoods newFood uuid =
        \<lparr>foods = existingFoods, isNewFood = False, isDuplicateInstance = True\<rparr>"
    by (rule addFoodToWeek_dup)
next
  assume "foodId again = foodId newFood \<and> color again = color newFood \<and>
      isFermented again = isFermented newFood"
  then have "triple again = triple newFood" by (simp add: triple_def)
  then have "isDuplicateInstance_fn (foods (addFoodToWeek existingFoods newFood uuid)) again"
    by (rule addFoodToWeek_then_dup)
  then show "addFoodToWeek (foods (addFoodToWeek existingFoods newFood uuid)) again uuid' =
        \<lparr>foods = foods (addFoodToWeek existingFoods newFood uuid), isNewFood = False,
         isDuplicateInstance = True\<rparr>"
    by (rule addFoodToWeek_dup)
qed

theorem addFoodToWeek_rejects_duplicate_witness:
  "(\<exists>food\<in>set [logged (cabbage GREEN False 1736157600000) ''inst_1'' 1736157600000].
       foodId food = foodId (cabbage GREEN False 1736346600000) \<and>
       color food = color (cabbage GREEN False 1736346600000) \<and>
       isFermented food = isFermented (cabbage GREEN False 1736346600000)) \<and>
   addFoodToWeek [logged (cabbage GREEN False 1736157600000) ''inst_1'' 1736157600000]
       (cabbage GREEN False 1736346600000) ''id-2'' =
     \<lparr>foods = [logged (cabbage GREEN False 1736157600000) ''inst_1'' 1736157600000],
      isNewFood = False, isDuplicateInstance = True\<rparr> \<and>
   \<not> isDuplicateInstance (addFoodToWeek [] (cabbage GREEN False 1736157600000) ''id-1'') \<and>
   addFoodToWeek (foods (addFoodToWeek [] (cabbage GREEN False 1736157600000) ''id-1''))
       (cabbage GREEN False 1736346600000) ''id-2'' =
     \<lparr>foods = [logged (cabbage GREEN False 1736157600000) ''id-1'' 1736157600000],
      isNewFood = False, isDuplicateInstance = True\<rparr>"
  using addFoodToWeek_rejects_duplicate
    [of "[logged (cabbage GREEN False 1736157600000) ''inst_1'' 1736157600000]"
        "cabbage GREEN False 1736346600000" "''id-2''"
        "cabbage GREEN False 1736346600000" "''id-2''"]
    addFoodToWeek_rejects_duplicate
    [where existingFoods = "[]" and newFood = "cabbage GREEN False 1736157600000"
       and uuid = "''id-1''" and again = "cabbage GREEN False 1736346600000"
       and uuid' = "''id-2''"]
  by (simp add: weekly_eval)


text \<open>
  Claim C8. If no two instances of the list share a (food identifier, color, fermentation
  flag) triple, then no two instances of the list returned by \<open>addFoodToWeek\<close> do.
\<close>

theorem addFoodToWeek_keeps_no_duplicates:
  "distinct (map triple existingFoods) \<Longrightarrow>
   distinct (map triple (foods (addFoodToWeek existingFoods newFood uuid)))"
  by (cases "isDuplicateInstance_fn existingFoods newFood")
     (simp_all add: addFoodToWeek_dup addFoodToWeek_foods_nodup isDuplicateInstance_fn_iff,
      simp add: triple_def)


theorem addFoodToWeek_keeps_no_duplicates_witness:
  "distinct (map triple [logged (cabbage GREEN False 1736157600000) ''id-1'' 1736157600000]) \<and>
   distinct (map triple (foods
     (addFoodToWeek [logged (cabbage GREEN False 1736157600000) ''id-1'' 1736157600000]
        (cabbage BLUE_PURPLE False 1736346600000) ''id-2''))) \<and>
   length (foods
     (addFoodToWeek [logged (cabbage GREEN False 1736157600000) ''id-1'' 1736157600000]
        (cabbage BLUE_PURPLE False 1736346600000) ''id-2'')) = 2"
proof -
  let ?a = "logged (cabbage GREEN False 1736157600000) ''id-1'' 1736157600000"
  have h: "distinct (map triple [?a])" by simp
  have n: "length (foods (addFoodToWeek [?a] (cabbage BLUE_PURPLE False 1736346600000) ''id-2'')) = 2"
    by (simp add: weekly_eval)
  from addFoodToWeek_keeps_no_duplicates [OF h] h n show ?thesis by simp
qed




lemma set_map_filter_eq:
  "set (List.map_filter f xs) = {y. \<exists>x\<in>set xs. f x = Some y}"
  by (induction xs) (auto split: option.splits)

lemma earliestFirstLoggedDate_Min:
  "earliestFirstLoggedDate xs fid = Some d \<Longrightarrow>
   d = Min {d'. \<exists>food\<in>set xs. foodId food = fid \<and> firstLoggedDate food = Some d'}"
proof -
  let ?ds = "List.map_filter (\<lambda>food. if foodId food = fid then firstLoggedDate food else None) xs"
  assume a: "earliestFirstLoggedDate xs fid = Some d"
  then obtain e es where es: "?ds = e # es" and d: "d = fold min es e"
    by (auto simp: earliestFirstLoggedDate_def split: list.splits)
  have "set ?ds = {d'. \<exists>food\<in>set xs. foodId food = fid \<and> firstLoggedDate food = Some d'}"
    unfolding set_map_filter_eq by (auto split: if_splits)
  moreover have "Min (set ?ds) = fold min es e"
    unfolding es by (rule Min.set_eq_fold)
  ultimately show ?thesis using d by simp
qed

lemma earliestFirstLoggedDate_shared:
  assumes "food \<in> set xs" "foodId food = fid"
    and "\<forall>g\<in>set xs. foodId g = fid \<longrightarrow> firstLoggedDate g = Some d"
  shows "earliestFirstLoggedDate xs fid = Some d"
proof -
  let ?ds = "List.map_filter (\<lambda>food. if foodId food = fid then firstLoggedDate food else None) xs"
  have s: "set ?ds = {d}" using assms
    unfolding set_map_filter_eq by (auto split: if_splits)
  then obtain e es where es: "?ds = e # es" by (cases ?ds) auto
  have "fold min es e = Min (set (e # es))" by (rule Min.set_eq_fold [symmetric])
  also have "set (e # es) = {d}" using s es by simp
  also have "Min {d} = d" by simp
  finally show ?thesis by (simp add: earliestFirstLoggedDate_def es)
qed

lemma find_first_match:
  assumes "xs = pre @ f # post" "\<forall>g\<in>set pre. \<not> P g" "P f"
  shows "find P xs = Some f"
  using assms(2) unfolding assms(1) by (induction pre) (auto simp: assms(3))

lemma getFirstLoggedDate_absent:
  "fid \<notin> foodId ` set xs \<Longrightarrow> getFirstLoggedDate xs fid = None"
proof -
  assume "fid \<notin> foodId ` set xs"
  then have "find (\<lambda>food. foodId food = fid) xs = None"
    by (force simp: find_None_iff)
  then show ?thesis by (simp add: getFirstLoggedDate_def)
qed

lemma getFirstLoggedDate_first:
  assumes "xs = pre @ f # post" "\<forall>g\<in>set pre. foodId g \<noteq> fid" "foodId f = fid"
  shows "getFirstLoggedDate xs fid = firstLoggedDate f"
  using find_first_match [of xs pre f post "\<lambda>food. foodId food = fid"] assms
  by (simp add: getFirstLoggedDate_def)

lemma addFoodToWeek_isNewFood:
  "\<not> isDuplicateInstance_fn xs c \<Longrightarrow>
   isNewFood (addFoodToWeek xs c u) = (getFirstLoggedDate xs (foodId c) = None)"
  by (simp add: addFoodToWeek_def Let_def)

lemma addFoodToWeek_last_firstLogged:
  "\<not> isDuplicateInstance_fn xs c \<Longrightarrow>
   firstLoggedDate (last (foods (addFoodToWeek xs c u))) =
     Some (case getFirstLoggedDate xs (foodId c) of Some d \<Rightarrow> d | None \<Rightarrow> loggedDate c)"
  by (simp add: addFoodToWeek_foods_nodup)

text \<open>
  \<open>addFoodToWeek\<close> keeps the first logged dates of a food identifier shared: lists built
  from the empty list by \<open>addFoodToWeek\<close> alone record one date per food identifier.
\<close>

lemma sharedFirstLogged_iff:
  "sharedFirstLogged xs \<longleftrightarrow>
     (\<forall>f\<in>set xs. firstLoggedDate f \<noteq> None) \<and>
     (\<forall>f\<in>set xs. \<forall>g\<in>set xs. foodId g = foodId f \<longrightarrow> firstLoggedDate g = firstLoggedDate f)"
  unfolding sharedFirstLogged_def list_all_iff by blast

lemma getFirstLoggedDate_cases:
  "(getFirstLoggedDate xs fid = None \<and> fid \<notin> foodId ` set xs) \<or>
   (\<exists>f\<in>set xs. foodId f = fid \<and> getFirstLoggedDate xs fid = firstLoggedDate f)"
proof (cases "find (\<lambda>food. foodId food = fid) xs")
  case None
  then have "fid \<notin> foodId ` set xs" by (force simp: find_None_iff)
  with None show ?thesis by (simp add: getFirstLoggedDate_def)
next
  case (Some f)
  then have "f \<in> set xs" "foodId f = fid"
    by (auto simp: find_Some_iff in_set_conv_nth)
  with Some show ?thesis by (auto simp: getFirstLoggedDate_def)
qed

lemma addFoodToWeek_keeps_shared_firstLoggedDate:
  assumes "sharedFirstLogged xs"
  shows "sharedFirstLogged (foods (addFoodToWeek xs c u))"
proof (cases "isDuplicateInstance_fn xs c")
  case True
  with assms show ?thesis by (simp add: addFoodToWeek_dup)
next
  case False
  then have nd: "\<not> isDuplicateInstance_fn xs c" .
  define n where "n = last (foods (addFoodToWeek xs c u))"
  have fs: "foods (addFoodToWeek xs c u) = xs @ [n]"
    unfolding n_def by (simp add: addFoodToWeek_foods_nodup [OF nd])
  have nid: "foodId n = foodId c"
    unfolding n_def by (simp add: addFoodToWeek_foods_nodup [OF nd])
  have nfl: "firstLoggedDate n =
      Some (case getFirstLoggedDate xs (foodId c) of Some d \<Rightarrow> d | None \<Rightarrow> loggedDate c)"
    unfolding n_def by (rule addFoodToWeek_last_firstLogged [OF nd])
  from assms [unfolded sharedFirstLogged_iff]
  have rec: "\<forall>f\<in>set xs. firstLoggedDate f \<noteq> None"
    and sh: "\<forall>f\<in>set xs. \<forall>g\<in>set xs. foodId g = foodId f \<longrightarrow> firstLoggedDate g = firstLoggedDate f"
    by blast+
  have key: "firstLoggedDate g = firstLoggedDate n" if g: "g \<in> set xs" "foodId g = foodId c" for g
  proof -
    from g have "foodId c \<in> foodId ` set xs" by (metis imageI)
    with getFirstLoggedDate_cases [of xs "foodId c"] obtain f where
      f: "f \<in> set xs" "foodId f = foodId c"
         "getFirstLoggedDate xs (foodId c) = firstLoggedDate f"
      by blast
    from rec f(1) obtain d where d: "firstLoggedDate f = Some d" by auto
    from sh f(1) g f(2) have "firstLoggedDate g = firstLoggedDate f" by metis
    then show ?thesis by (simp add: nfl f(3) d)
  qed
  have r: "\<forall>f\<in>set (xs @ [n]). firstLoggedDate f \<noteq> None"
    using rec nfl by auto
  have s: "firstLoggedDate g = firstLoggedDate f"
    if "f \<in> set (xs @ [n])" "g \<in> set (xs @ [n])" "foodId g = foodId f" for f g
  proof (cases "f = n")
    case fn: True
    show ?thesis
    proof (cases "g = n")
      case True
      with fn show ?thesis by simp
    next
      case False
      with that have "g \<in> set xs" "foodId g = foodId c" using fn nid by simp_all
      from key [OF this] fn show ?thesis by simp
    qed
  next
    case fx: False
    with that have f: "f \<in> set xs" by simp
    show ?thesis
    proof (cases "g = n")
      case True
      with that nid have "foodId f = foodId c" by simp
      from key [OF f this] True show ?thesis by simp
    next
      case False
      with that have "g \<in> set xs" by simp
      with sh f that(3) show ?thesis by blast
    qed
  qed
  have "sharedFirstLogged (xs @ [n])"
    unfolding sharedFirstLogged_iff
  proof (intro conjI ballI impI)
    fix f assume "f \<in> set (xs @ [n])"
    with r show "firstLoggedDate f \<noteq> None" by (rule bspec)
  next
    fix f g assume "f \<in> set (xs @ [n])" "g \<in> set (xs @ [n])" "foodId g = foodId f"
    then show "firstLoggedDate g = firstLoggedDate f" by (rule s)
  qed
  then show ?thesis by (simp only: fs)
qed

lemma sharedFirstLogged_Nil: "sharedFirstLogged []"
  by (simp add: sharedFirstLogged_def)

text \<open>
  Claim C3, as the source has it. For a candidate that is no duplicate: if its food
  identifier does not occur in the list, \<open>isNewFood\<close> is true and the appended instance's
  \<open>firstLoggedDate\<close> is the candidate's logged time; if the first instance, in list order,
  that carries the identifier has a recorded \<open>firstLoggedDate\<close>, then \<open>isNewFood\<close> is
  false and the appended instance takes that date; and this is the earliest recorded date
  whenever all instances carrying the identifier record the same date, as in every list that
  \<open>addFoodToWeek\<close> built.
\<close>

theorem addFoodToWeek_firstLoggedDate:
  assumes nodup: "\<not> (\<exists>food\<in>set existingFoods. foodId food = foodId newFood \<and>
              color food = color newFood \<and> isFermented food = isFermented newFood)"
  shows "(foodId newFood \<notin> foodId ` set existingFoods \<longrightarrow>
            isNewFood (addFoodToWeek existingFoods newFood uuid) \<and>
            firstLoggedDate (last (foods (addFoodToWeek existingFoods newFood uuid))) =
              Some (loggedDate newFood)) \<and>
         (\<forall>pre f post d.
            existingFoods = pre @ f # post \<and> (\<forall>g\<in>set pre. foodId g \<noteq> foodId newFood) \<and>
            foodId f = foodId newFood \<and> firstLoggedDate f = Some d \<longrightarrow>
            \<not> isNewFood (addFoodToWeek existingFoods newFood uuid) \<and>
            firstLoggedDate (last (foods (addFoodToWeek existingFoods newFood uuid))) = Some d) \<and>
         (\<forall>d. foodId newFood \<in> foodId ` set existingFoods \<and>
            (\<forall>g\<in>set existingFoods. foodId g = foodId newFood \<longrightarrow>
               firstLoggedDate g = Some d) \<longrightarrow>
            \<not> isNewFood (addFoodToWeek existingFoods newFood uuid) \<and>
            firstLoggedDate (last (foods (addFoodToWeek existingFoods newFood uuid))) =
              earliestFirstLoggedDate existingFoods (foodId newFood))"
proof -
  from nodup have nd: "\<not> isDuplicateInstance_fn existingFoods newFood"
    by (simp add: isDuplicateInstance_fn_ex)
  have first: "\<not> isNewFood (addFoodToWeek existingFoods newFood uuid) \<and>
      firstLoggedDate (last (foods (addFoodToWeek existingFoods newFood uuid))) = Some d"
    if "existingFoods = pre @ f # post" "\<forall>g\<in>set pre. foodId g \<noteq> foodId newFood"
       "foodId f = foodId newFood" "firstLoggedDate f = Some d" for pre f post d
  proof -
    have "getFirstLoggedDate existingFoods (foodId newFood) = Some d"
      using getFirstLoggedDate_first [OF that(1) that(2) that(3)] that(4) by simp
    then show ?thesis
      by (simp add: addFoodToWeek_isNewFood [OF nd] addFoodToWeek_last_firstLogged [OF nd])
  qed
  have absent: "isNewFood (addFoodToWeek existingFoods newFood uuid) \<and>
      firstLoggedDate (last (foods (addFoodToWeek existingFoods newFood uuid))) =
        Some (loggedDate newFood)"
    if "foodId newFood \<notin> foodId ` set existingFoods"
    using getFirstLoggedDate_absent [OF that]
    by (simp add: addFoodToWeek_isNewFood [OF nd] addFoodToWeek_last_firstLogged [OF nd])
  have shared: "\<not> isNewFood (addFoodToWeek existingFoods newFood uuid) \<and>
      firstLoggedDate (last (foods (addFoodToWeek existingFoods newFood uuid))) =
        earliestFirstLoggedDate existingFoods (foodId newFood)"
    if mem: "foodId newFood \<in> foodId ` set existingFoods"
      and sh: "\<forall>g\<in>set existingFoods. foodId g = foodId newFood \<longrightarrow>
             firstLoggedDate g = Some d" for d
  proof -
    from mem obtain g where g: "g \<in> set existingFoods" "foodId g = foodId newFood" by auto
    have "\<exists>x\<in>set existingFoods. foodId x = foodId newFood" using g by auto
    then obtain pre f post where sp: "existingFoods = pre @ f # post"
      "foodId f = foodId newFood" "\<forall>y\<in>set pre. foodId y \<noteq> foodId newFood"
      using split_list_first_prop [of existingFoods "\<lambda>x. foodId x = foodId newFood"] by blast
    have "f \<in> set existingFoods" using sp(1) by simp
    with sh sp(2) have fd: "firstLoggedDate f = Some d" by simp
    have e: "earliestFirstLoggedDate existingFoods (foodId newFood) = Some d"
      using earliestFirstLoggedDate_shared [OF g(1) g(2) sh] .
    show ?thesis using first [OF sp(1) sp(3) sp(2) fd] e by simp
  qed
  show ?thesis using first absent shared by blast
qed


theorem addFoodToWeek_firstLoggedDate_witness:
  "isNewFood (addFoodToWeek [] (cabbage GREEN False 1736157600000) ''id-1'') \<and>
   firstLoggedDate (last (foods
       (addFoodToWeek [] (cabbage GREEN False 1736157600000) ''id-1''))) =
     Some 1736157600000 \<and>
   \<not> isNewFood
       (addFoodToWeek [logged (cabbage GREEN False 1736157600000) ''id-1'' 1736157600000]
          (cabbage BLUE_PURPLE False 1736346600000) ''id-2'') \<and>
   firstLoggedDate (last (foods
       (addFoodToWeek [logged (cabbage GREEN False 1736157600000) ''id-1'' 1736157600000]
          (cabbage BLUE_PURPLE False 1736346600000) ''id-2''))) = Some 1736157600000 \<and>
   earliestFirstLoggedDate
       [logged (cabbage GREEN False 1736157600000) ''id-1'' 1736157600000] ''cabbage'' =
     Some 1736157600000"
proof -
  let ?a = "logged (cabbage GREEN False 1736157600000) ''id-1'' 1736157600000"
  let ?c = "cabbage BLUE_PURPLE False 1736346600000"
  have h0: "\<not> (\<exists>food\<in>set []. foodId food = foodId (cabbage GREEN False 1736157600000) \<and>
              color food = color (cabbage GREEN False 1736157600000) \<and>
              isFermented food = isFermented (cabbage GREEN False 1736157600000))"
    by simp
  have h1: "\<not> (\<exists>food\<in>set [?a]. foodId food = foodId ?c \<and>
              color food = color ?c \<and> isFermented food = isFermented ?c)"
    by (simp add: logged_def cabbage_def)
  have first: "[?a] = [] @ ?a # [] \<and> (\<forall>g\<in>set []. foodId g \<noteq> foodId ?c) \<and>
      foodId ?a = foodId ?c \<and> firstLoggedDate ?a = Some 1736157600000"
    by (simp add: logged_def cabbage_def)
  have shared: "foodId ?c \<in> foodId ` set [?a] \<and>
      (\<forall>g\<in>set [?a]. foodId g = foodId ?c \<longrightarrow> firstLoggedDate g = Some 1736157600000)"
    by (simp add: logged_def cabbage_def)
  have absent: "foodId (cabbage GREEN False 1736157600000) \<notin> foodId ` set []" by simp
  have fid: "foodId ?c = ''cabbage''" by (simp add: cabbage_def)
  have ld: "loggedDate (cabbage GREEN False 1736157600000) = 1736157600000"
    by (simp add: cabbage_def)
  from addFoodToWeek_firstLoggedDate [OF h0, of "''id-1''"] absent ld
  have a: "isNewFood (addFoodToWeek [] (cabbage GREEN False 1736157600000) ''id-1'') \<and>
     firstLoggedDate (last (foods
       (addFoodToWeek [] (cabbage GREEN False 1736157600000) ''id-1''))) =
     Some 1736157600000" by simp
  from addFoodToWeek_firstLoggedDate [OF h1, of "''id-2''"] first
  have b: "\<not> isNewFood (addFoodToWeek [?a] ?c ''id-2'') \<and>
     firstLoggedDate (last (foods (addFoodToWeek [?a] ?c ''id-2''))) = Some 1736157600000"
    by blast
  from addFoodToWeek_firstLoggedDate [OF h1, of "''id-2''"] shared
  have c: "firstLoggedDate (last (foods (addFoodToWeek [?a] ?c ''id-2''))) =
     earliestFirstLoggedDate [?a] (foodId ?c)"
    by blast
  from a b c fid show ?thesis by simp
qed

text \<open>
  The claim as written asks for the earliest recorded date on every list. The source takes
  the date of the first match in list order: with a later date recorded first, the appended
  instance gets the later one.
\<close>

theorem addFoodToWeek_firstLoggedDate_counterexample:
  "\<not> isDuplicateInstance
       (addFoodToWeek
          [logged (cabbage GREEN False 1736244000000) ''inst_1'' 1736244000000,
           logged (cabbage RED False 1736157600000) ''inst_2'' 1736157600000]
          (cabbage YELLOW False 1736346600000) ''id-3'') \<and>
   hasFoodBeenLogged
       [logged (cabbage GREEN False 1736244000000) ''inst_1'' 1736244000000,
        logged (cabbage RED False 1736157600000) ''inst_2'' 1736157600000]
       (foodId (cabbage YELLOW False 1736346600000)) \<and>
   firstLoggedDate (last (foods
       (addFoodToWeek
          [logged (cabbage GREEN False 1736244000000) ''inst_1'' 1736244000000,
           logged (cabbage RED False 1736157600000) ''inst_2'' 1736157600000]
          (cabbage YELLOW False 1736346600000) ''id-3''))) = Some 1736244000000 \<and>
   earliestFirstLoggedDate
       [logged (cabbage GREEN False 1736244000000) ''inst_1'' 1736244000000,
        logged (cabbage RED False 1736157600000) ''inst_2'' 1736157600000]
       (foodId (cabbage YELLOW False 1736346600000)) = Some 1736157600000"
  by (simp add: weekly_eval earliestFirstLoggedDate_def)

text \<open>
  The field \<open>firstLoggedDate\<close> is optional. When the first instance that carries the
  candidate's food identifier records none, \<open>isNewFood\<close> comes out true although the food
  has been logged.
\<close>

lemma addFoodToWeek_unrecorded_firstLoggedDate:
  "hasFoodBeenLogged
     [\<lparr>foodId = ''cabbage'', foodName = ''Cabbage'', category = VEGETABLES, color = GREEN,
       isFermented = False, loggedDate = 1736157600000, pointValue = 1,
       instanceId = ''inst_1'', firstLoggedDate = None\<rparr>] ''cabbage'' \<and>
   isNewFood
     (addFoodToWeek
        [\<lparr>foodId = ''cabbage'', foodName = ''Cabbage'', category = VEGETABLES, color = GREEN,
          isFermented = False, loggedDate = 1736157600000, pointValue = 1,
          instanceId = ''inst_1'', firstLoggedDate = None\<rparr>]
        (cabbage BLUE_PURPLE False 1736346600000) ''id-2'')"
  by (simp add: weekly_eval)

section \<open>Points: properties\<close>

lemma calculateWeeklyPoints_sum_list:
  "calculateWeeklyPoints fs = (\<Sum>f\<leftarrow>fs. getPointValue (FoodForPoints.category f))"
proof -
  have "foldl (\<lambda>total f. total + getPointValue (FoodForPoints.category f)) a fs =
      a + (\<Sum>f\<leftarrow>fs. getPointValue (FoodForPoints.category f))" for a
    by (induction fs arbitrary: a) simp_all
  then show ?thesis by (simp add: calculateWeeklyPoints_def)
qed

lemma breakdown_sum_add: "breakdown_sum (breakdown_add b c v) = breakdown_sum b + v"
  by (cases c) (simp_all add: breakdown_sum_def breakdown_add_def)

lemma breakdown_get_add:
  "breakdown_get (breakdown_add b c v) c' = breakdown_get b c' + (if c' = c then v else 0)"
  by (cases c; cases c') (simp_all add: breakdown_get_def breakdown_add_def)

lemma breakdown_fold_sum:
  "breakdown_sum
     (fold (\<lambda>f b. breakdown_add b (FoodForPoints.category f)
              (getPointValue (FoodForPoints.category f))) fs b) =
   breakdown_sum b + (\<Sum>f\<leftarrow>fs. getPointValue (FoodForPoints.category f))"
  by (induction fs arbitrary: b) (simp_all add: breakdown_sum_add)

lemma breakdown_fold_get:
  "breakdown_get
     (fold (\<lambda>f b. breakdown_add b (FoodForPoints.category f)
              (getPointValue (FoodForPoints.category f))) fs b) c =
   breakdown_get b c +
     (\<Sum>f\<leftarrow>filter (\<lambda>f. FoodForPoints.category f = c) fs.
        getPointValue (FoodForPoints.category f))"
  by (induction fs arbitrary: b) (simp_all add: breakdown_get_add)

text \<open>
  Claim C4. The six values of \<open>calculateCategoryBreakdown\<close> add up to
  \<open>calculateWeeklyPoints\<close> of the same list, exactly; each category has its value in the
  breakdown, the sum of the point values of the foods of that category, hence 0 when no food
  of the category occurs; and the empty list yields 0. This holds of every list, whether or
  not it has one entry per food identifier.
\<close>

theorem breakdown_sums_to_weekly_points:
  "breakdown_sum (calculateCategoryBreakdown fs) = calculateWeeklyPoints fs \<and>
   (\<forall>c. breakdown_get (calculateCategoryBreakdown fs) c =
      (\<Sum>f\<leftarrow>filter (\<lambda>f. FoodForPoints.category f = c) fs.
         getPointValue (FoodForPoints.category f))) \<and>
   (\<forall>c. c \<notin> FoodForPoints.category ` set fs \<longrightarrow>
      breakdown_get (calculateCategoryBreakdown fs) c = 0) \<and>
   calculateWeeklyPoints [] = 0 \<and>
   breakdown_sum (calculateCategoryBreakdown []) = 0"
proof -
  let ?zero = "\<lparr>whole_grains = 0, nuts_seeds = 0, fruits = 0, vegetables = 0, legumes = 0,
      herbs_spices = 0\<rparr>"
  have z0: "breakdown_sum ?zero = 0" by (simp add: breakdown_sum_def)
  have g0: "breakdown_get ?zero c = 0" for c by (cases c) (simp_all add: breakdown_get_def)
  have s: "breakdown_sum (calculateCategoryBreakdown fs) = calculateWeeklyPoints fs" for fs
    by (simp add: calculateCategoryBreakdown_def breakdown_fold_sum
        calculateWeeklyPoints_sum_list z0)
  have g: "breakdown_get (calculateCategoryBreakdown fs) c =
      (\<Sum>f\<leftarrow>filter (\<lambda>f. FoodForPoints.category f = c) fs.
         getPointValue (FoodForPoints.category f))" for c
    by (simp add: calculateCategoryBreakdown_def breakdown_fold_get g0)
  have z: "breakdown_get (calculateCategoryBreakdown fs) c = 0"
    if "c \<notin> FoodForPoints.category ` set fs" for c
  proof -
    from that have "filter (\<lambda>f. FoodForPoints.category f = c) fs = []"
      by (auto simp: filter_empty_conv)
    then show ?thesis by (simp add: g)
  qed
  have e: "calculateWeeklyPoints [] = 0" by (simp add: calculateWeeklyPoints_def)
  from s [of fs] s [of "[]"] g z e show ?thesis by simp
qed

theorem breakdown_sums_to_weekly_points_witness:
  "breakdown_sum (calculateCategoryBreakdown
      [food_of ''basil'' HERBS_SPICES, food_of ''kale'' VEGETABLES, food_of ''thyme'' HERBS_SPICES]) =
     3 / 2 \<and>
   calculateWeeklyPoints
      [food_of ''basil'' HERBS_SPICES, food_of ''kale'' VEGETABLES, food_of ''thyme'' HERBS_SPICES] =
     3 / 2 \<and>
   breakdown_get (calculateCategoryBreakdown
      [food_of ''basil'' HERBS_SPICES, food_of ''kale'' VEGETABLES, food_of ''thyme'' HERBS_SPICES])
      HERBS_SPICES = 1 / 2 \<and>
   FRUITS \<notin> FoodForPoints.category `
      set [food_of ''basil'' HERBS_SPICES, food_of ''kale'' VEGETABLES, food_of ''thyme'' HERBS_SPICES] \<and>
   breakdown_get (calculateCategoryBreakdown
      [food_of ''basil'' HERBS_SPICES, food_of ''kale'' VEGETABLES, food_of ''thyme'' HERBS_SPICES])
      FRUITS = 0"
proof -
  let ?fs = "[food_of ''basil'' HERBS_SPICES, food_of ''kale'' VEGETABLES, food_of ''thyme'' HERBS_SPICES]"
  have h: "FRUITS \<notin> FoodForPoints.category ` set ?fs" by (simp add: food_of_def)
  have p: "calculateWeeklyPoints ?fs = 3 / 2"
    by (simp add: calculateWeeklyPoints_def getPointValue_def CATEGORY_POINT_VALUES_def
        food_of_def)
  have q: "(\<Sum>f\<leftarrow>filter (\<lambda>f. FoodForPoints.category f = HERBS_SPICES) ?fs.
         getPointValue (FoodForPoints.category f)) = 1 / 2"
    by (simp add: getPointValue_def CATEGORY_POINT_VALUES_def food_of_def)
  note t = breakdown_sums_to_weekly_points [of ?fs]
  from t have a: "breakdown_sum (calculateCategoryBreakdown ?fs) = calculateWeeklyPoints ?fs"
    by (rule conjunct1)
  from t have b: "breakdown_get (calculateCategoryBreakdown ?fs) HERBS_SPICES =
      (\<Sum>f\<leftarrow>filter (\<lambda>f. FoodForPoints.category f = HERBS_SPICES) ?fs.
         getPointValue (FoodForPoints.category f))"
    by blast
  from t h have c: "breakdown_get (calculateCategoryBreakdown ?fs) FRUITS = 0"
    by blast
  show ?thesis using a b c h unfolding p q by blast
qed

section \<open>Colors: properties\<close>

lemma UNIV_FoodColor: "(UNIV :: FoodColor set) = {RED, ORANGE, YELLOW, GREEN, BLUE_PURPLE, WHITE_TAN}"
proof -
  have "c \<in> {RED, ORANGE, YELLOW, GREEN, BLUE_PURPLE, WHITE_TAN}" for c
    by (cases c) simp_all
  then show ?thesis by blast
qed

lemma card_UNIV_FoodColor: "card (UNIV :: FoodColor set) = 6"
  by (simp add: UNIV_FoodColor)

lemma Set_add_set: "set (Set_add s x) = insert x (set s)"
  by (auto simp: Set_add_def)

lemma Set_add_distinct: "distinct s \<Longrightarrow> distinct (Set_add s x)"
  by (simp add: Set_add_def)

lemma fold_Set_add_set:
  "set (fold (\<lambda>f s. if P f then Set_add s (g f) else s) fs s0) =
     set s0 \<union> g ` {f \<in> set fs. P f}"
  by (induction fs arbitrary: s0) (auto simp: Set_add_set)

lemma fold_Set_add_distinct:
  "distinct s0 \<Longrightarrow> distinct (fold (\<lambda>f s. if P f then Set_add s (g f) else s) fs s0)"
  by (induction fs arbitrary: s0) (simp_all add: Set_add_distinct)

lemma calculateWeeklyColors_set:
  "set (calculateWeeklyColors fs) = FoodWithColor.color ` set fs"
  using fold_Set_add_set [of "\<lambda>_. True" FoodWithColor.color fs "[]"]
  by (simp add: calculateWeeklyColors_def)

lemma calculateWeeklyColors_distinct: "distinct (calculateWeeklyColors fs)"
  using fold_Set_add_distinct [of "[]" "\<lambda>_. True" FoodWithColor.color fs]
  by (simp add: calculateWeeklyColors_def)

lemma calculateDailyColors_fold:
  "calculateDailyColors tza fs d =
     fold (\<lambda>f s. if isSameDay tza (FoodWithColor.loggedDate f) d
                  then Set_add s (FoodWithColor.color f) else s) fs []"
  by (simp add: calculateDailyColors_def isSameDay_def Let_def)

lemma calculateDailyColors_set:
  "set (calculateDailyColors tza fs d) =
     FoodWithColor.color ` {f \<in> set fs. isSameDay tza (FoodWithColor.loggedDate f) d}"
  by (simp add: calculateDailyColors_fold fold_Set_add_set)

lemma calculateDailyColors_distinct: "distinct (calculateDailyColors tza fs d)"
  by (simp add: calculateDailyColors_fold fold_Set_add_distinct)

text \<open>
  Claim C10. The arrays returned by \<open>calculateWeeklyColors\<close> and by
  \<open>calculateDailyColors\<close> hold each color at most once; a color is in the weekly array
  exactly when some entry has it, and in the daily array exactly when some entry has it whose
  logged date agrees with the given date in local year, month and day of the month. So on
  these arrays the length test of \<open>hasAllColors\<close> counts distinct colors.
\<close>

theorem calculated_colors_distinct:
  "distinct (calculateWeeklyColors fs) \<and>
   (\<forall>c. c \<in> set (calculateWeeklyColors fs) \<longleftrightarrow> (\<exists>f\<in>set fs. FoodWithColor.color f = c)) \<and>
   distinct (calculateDailyColors tza fs d) \<and>
   (\<forall>c. c \<in> set (calculateDailyColors tza fs d) \<longleftrightarrow>
      (\<exists>f\<in>set fs. FoodWithColor.color f = c \<and>
         getFullYear tza (FoodWithColor.loggedDate f) = getFullYear tza d \<and>
         getMonth tza (FoodWithColor.loggedDate f) = getMonth tza d \<and>
         getDate tza (FoodWithColor.loggedDate f) = getDate tza d)) \<and>
   (hasAllColors (calculateWeeklyColors fs) \<longleftrightarrow> card (FoodWithColor.color ` set fs) = 6) \<and>
   (hasAllColors (calculateDailyColors tza fs d) \<longleftrightarrow>
      card (FoodWithColor.color `
        {f \<in> set fs. getFullYear tza (FoodWithColor.loggedDate f) = getFullYear tza d \<and>
           getMonth tza (FoodWithColor.loggedDate f) = getMonth tza d \<and>
           getDate tza (FoodWithColor.loggedDate f) = getDate tza d}) = 6)"
proof -
  have w: "\<forall>c. c \<in> set (calculateWeeklyColors fs) \<longleftrightarrow> (\<exists>f\<in>set fs. FoodWithColor.color f = c)"
    by (auto simp: calculateWeeklyColors_set)
  have d: "\<forall>c. c \<in> set (calculateDailyColors tza fs d) \<longleftrightarrow>
      (\<exists>f\<in>set fs. FoodWithColor.color f = c \<and>
         getFullYear tza (FoodWithColor.loggedDate f) = getFullYear tza d \<and>
         getMonth tza (FoodWithColor.loggedDate f) = getMonth tza d \<and>
         getDate tza (FoodWithColor.loggedDate f) = getDate tza d)"
    by (auto simp: calculateDailyColors_set isSameDay_def)
  have hw: "hasAllColors (calculateWeeklyColors fs) \<longleftrightarrow> card (FoodWithColor.color ` set fs) = 6"
    using distinct_card [OF calculateWeeklyColors_distinct, of fs]
    by (simp add: hasAllColors_def calculateWeeklyColors_set)
  have hd: "hasAllColors (calculateDailyColors tza fs d) \<longleftrightarrow>
      card (FoodWithColor.color `
        {f \<in> set fs. getFullYear tza (FoodWithColor.loggedDate f) = getFullYear tza d \<and>
           getMonth tza (FoodWithColor.loggedDate f) = getMonth tza d \<and>
           getDate tza (FoodWithColor.loggedDate f) = getDate tza d}) = 6"
    using distinct_card [OF calculateDailyColors_distinct, of tza fs d]
    by (simp add: hasAllColors_def calculateDailyColors_set isSameDay_def)
  from w d hw hd calculateWeeklyColors_distinct calculateDailyColors_distinct
  show ?thesis by blast
qed

theorem calculated_colors_distinct_witness:
  "distinct (calculateWeeklyColors [colored GREEN 1736157600000, colored RED 1736244000000,
      colored GREEN 1736346600000]) \<and>
   calculateWeeklyColors [colored GREEN 1736157600000, colored RED 1736244000000,
      colored GREEN 1736346600000] = [GREEN, RED] \<and>
   distinct (calculateDailyColors (fixedOffset 0) [colored GREEN 1736157600000, colored RED 1736244000000,
      colored GREEN 1736346600000] 1736121600000) \<and>
   calculateDailyColors (fixedOffset 0) [colored GREEN 1736157600000, colored RED 1736244000000,
      colored GREEN 1736346600000] 1736121600000 = [GREEN] \<and>
   \<not> hasAllColors (calculateWeeklyColors [colored GREEN 1736157600000,
      colored RED 1736244000000, colored GREEN 1736346600000])"
proof -
  let ?fs = "[colored GREEN 1736157600000, colored RED 1736244000000,
      colored GREEN 1736346600000]"
  have w: "calculateWeeklyColors ?fs = [GREEN, RED]"
    by (simp add: calculateWeeklyColors_def Set_add_def colored_def)
  have d: "calculateDailyColors (fixedOffset 0) ?fs 1736121600000 = [GREEN]"
    by code_simp
  have n: "\<not> hasAllColors (calculateWeeklyColors ?fs)"
    unfolding w by (simp add: hasAllColors_def)
  from calculated_colors_distinct [of ?fs "fixedOffset 0" 1736121600000]
  have "distinct (calculateWeeklyColors ?fs)"
    and "distinct (calculateDailyColors (fixedOffset 0) ?fs 1736121600000)"
    by blast+
  with w d n show ?thesis by blast
qed

text \<open>
  Claim C6, as the source has it. \<open>hasAllColors\<close> is true exactly when the list has six
  elements. On a list without repeated elements, such as the color functions return, that is
  exactly when the number of distinct colors is six, and exactly when all six colors are
  there.
\<close>

theorem hasAllColors_length:
  "(hasAllColors colors \<longleftrightarrow> length colors = 6) \<and>
   (distinct colors \<longrightarrow> (hasAllColors colors \<longleftrightarrow> card (set colors) = 6)) \<and>
   (distinct colors \<longrightarrow> (hasAllColors colors \<longleftrightarrow> set colors = UNIV))"
proof -
  have u: "card (set colors) = 6 \<longleftrightarrow> set colors = UNIV"
  proof
    assume "card (set colors) = 6"
    then have "card (set colors) = card (UNIV :: FoodColor set)"
      by (simp add: card_UNIV_FoodColor)
    moreover have "finite (UNIV :: FoodColor set)" by (simp add: UNIV_FoodColor)
    ultimately show "set colors = UNIV" by (simp add: card_subset_eq)
  next
    assume "set colors = UNIV"
    then show "card (set colors) = 6" by (simp add: card_UNIV_FoodColor)
  qed
  have l: "hasAllColors colors \<longleftrightarrow> length colors = 6" by (simp add: hasAllColors_def)
  have c: "hasAllColors colors \<longleftrightarrow> card (set colors) = 6" if "distinct colors"
    using that l by (simp add: distinct_card)
  from l c u show ?thesis by blast
qed

theorem hasAllColors_length_witness:
  "hasAllColors [RED, ORANGE, YELLOW, GREEN, BLUE_PURPLE, WHITE_TAN] \<and>
   distinct [RED, ORANGE, YELLOW, GREEN, BLUE_PURPLE, WHITE_TAN] \<and>
   card (set [RED, ORANGE, YELLOW, GREEN, BLUE_PURPLE, WHITE_TAN]) = 6 \<and>
   set [RED, ORANGE, YELLOW, GREEN, BLUE_PURPLE, WHITE_TAN] = UNIV"
proof -
  let ?cs = "[RED, ORANGE, YELLOW, GREEN, BLUE_PURPLE, WHITE_TAN]"
  have d: "distinct ?cs" by simp
  have l: "length ?cs = 6" by simp
  from hasAllColors_length [of ?cs] d l show ?thesis by blast
qed

text \<open>
  The claim as written counts distinct colors on every list. The source counts elements: six
  copies of one color pass, and the six colors with one of them repeated fail.
\<close>

theorem hasAllColors_distinct_count_counterexample:
  "hasAllColors [RED, RED, RED, RED, RED, RED] \<and>
   card (set [RED, RED, RED, RED, RED, RED]) = 1 \<and>
   \<not> hasAllColors [RED, RED, ORANGE, YELLOW, GREEN, BLUE_PURPLE, WHITE_TAN] \<and>
   card (set [RED, RED, ORANGE, YELLOW, GREEN, BLUE_PURPLE, WHITE_TAN]) = 6"
  by (simp add: hasAllColors_def)

section \<open>Streak: properties\<close>

lemma areConsecutiveWeeks_iff:
  "areConsecutiveWeeks a b \<longleftrightarrow>
     getTime (weekStart b) = getTime (weekStart a) - 7 * msPerDay"
  by (auto simp: areConsecutiveWeeks_def msPerDay_def)

lemma calculateStreak_loop_spec:
  "i \<le> length weeks \<Longrightarrow>
   i \<le> calculateStreak_loop weeks i i \<and>
   calculateStreak_loop weeks i i \<le> length weeks \<and>
   (\<forall>k. i \<le> k \<and> k < calculateStreak_loop weeks i i \<longrightarrow> \<not> breaks weeks k) \<and>
   (calculateStreak_loop weeks i i < length weeks \<longrightarrow>
      breaks weeks (calculateStreak_loop weeks i i))"
proof (induction "length weeks - i" arbitrary: i)
  case 0
  then have "i = length weeks" by simp
  then have r: "calculateStreak_loop weeks i i = i"
    by (subst calculateStreak_loop.simps) simp
  show ?case unfolding r using \<open>i = length weeks\<close> by auto
next
  case (Suc n)
  then have lt: "i < length weeks" by simp
  show ?case
  proof (cases "breaks weeks i")
    case True
    then have r: "calculateStreak_loop weeks i i = i"
      using lt by (subst calculateStreak_loop.simps) (auto simp: breaks_def Let_def)
    show ?thesis unfolding r using True lt by auto
  next
    case False
    then have step: "calculateStreak_loop weeks i i = calculateStreak_loop weeks (Suc i) (Suc i)"
      using lt by (subst calculateStreak_loop.simps) (auto simp: breaks_def Let_def)
    have "n = length weeks - Suc i" using Suc.hyps(2) by simp
    from Suc.hyps(1) [OF this] lt
    have ih: "Suc i \<le> calculateStreak_loop weeks (Suc i) (Suc i) \<and>
       calculateStreak_loop weeks (Suc i) (Suc i) \<le> length weeks \<and>
       (\<forall>k. Suc i \<le> k \<and> k < calculateStreak_loop weeks (Suc i) (Suc i) \<longrightarrow> \<not> breaks weeks k) \<and>
       (calculateStreak_loop weeks (Suc i) (Suc i) < length weeks \<longrightarrow>
          breaks weeks (calculateStreak_loop weeks (Suc i) (Suc i)))"
      by simp
    have "\<not> breaks weeks k" if "i \<le> k" "k < calculateStreak_loop weeks (Suc i) (Suc i)" for k
    proof (cases "k = i")
      case True
      with False show ?thesis by simp
    next
      case False
      with that have "Suc i \<le> k" by simp
      with ih that show ?thesis by blast
    qed
    with ih show ?thesis unfolding step by auto
  qed
qed

lemma streak_prefix_breaks:
  "streak_prefix weeks n \<longleftrightarrow> n \<le> length weeks \<and> (\<forall>k<n. \<not> breaks weeks k)"
  by (auto simp: streak_prefix_def breaks_def areConsecutiveWeeks_iff)

lemma calculateStreak_spec:
  "calculateStreak weeks \<le> length weeks \<and>
   (\<forall>k<calculateStreak weeks. \<not> breaks weeks k) \<and>
   (calculateStreak weeks < length weeks \<longrightarrow> breaks weeks (calculateStreak weeks))"
proof (cases "weeks = []")
  case True
  then show ?thesis by (simp add: calculateStreak_def)
next
  case False
  then have c: "calculateStreak weeks = calculateStreak_loop weeks 0 0"
    by (simp add: calculateStreak_def)
  from calculateStreak_loop_spec [of 0 weeks] show ?thesis unfolding c by simp
qed

text \<open>
  Claim C2. On an archive given most recent first, \<open>calculateStreak\<close> returns the length
  of the longest prefix in which every entry has its goal achieved and each entry after the
  first starts exactly seven days before the entry just before it. The entry at which the
  count stops, if there is one, has failed its goal or is not adjacent to its predecessor, and
  is not counted. The empty archive gives 0.
\<close>

theorem calculateStreak_longest_prefix:
  "streak_prefix weeks (calculateStreak weeks) \<and>
   (\<forall>n. streak_prefix weeks n \<longrightarrow> n \<le> calculateStreak weeks) \<and>
   (calculateStreak weeks < length weeks \<longrightarrow>
      \<not> goalAchieved (weeks ! calculateStreak weeks) \<or>
      (0 < calculateStreak weeks \<and>
       getTime (weekStart (weeks ! calculateStreak weeks)) \<noteq>
         getTime (weekStart (weeks ! (calculateStreak weeks - 1))) - 7 * msPerDay)) \<and>
   calculateStreak [] = 0"
proof -
  note s = calculateStreak_spec [of weeks]
  have p: "streak_prefix weeks (calculateStreak weeks)"
    using s by (simp add: streak_prefix_breaks)
  have m: "n \<le> calculateStreak weeks" if "streak_prefix weeks n" for n
  proof (rule ccontr)
    assume "\<not> n \<le> calculateStreak weeks"
    then have lt: "calculateStreak weeks < n" by simp
    from that have n: "n \<le> length weeks" and nb: "\<forall>k<n. \<not> breaks weeks k"
      by (simp_all add: streak_prefix_breaks)
    from lt n have "calculateStreak weeks < length weeks" by simp
    with s have "breaks weeks (calculateStreak weeks)" by blast
    with nb lt show False by blast
  qed
  have b: "\<not> goalAchieved (weeks ! calculateStreak weeks) \<or>
      (0 < calculateStreak weeks \<and>
       getTime (weekStart (weeks ! calculateStreak weeks)) \<noteq>
         getTime (weekStart (weeks ! (calculateStreak weeks - 1))) - 7 * msPerDay)"
    if "calculateStreak weeks < length weeks"
    using s that by (auto simp: breaks_def areConsecutiveWeeks_iff)
  have e: "calculateStreak [] = 0" by (simp add: calculateStreak_def)
  from p m b e show ?thesis by blast
qed

theorem calculateStreak_longest_prefix_witness:
  "calculateStreak
     [archived 1737936000000 31, archived 1737331200000 30, archived 1736121600000 32] = 2 \<and>
   streak_prefix
     [archived 1737936000000 31, archived 1737331200000 30, archived 1736121600000 32] 2 \<and>
   \<not> streak_prefix
     [archived 1737936000000 31, archived 1737331200000 30, archived 1736121600000 32] 3 \<and>
   goalAchieved
     ([archived 1737936000000 31, archived 1737331200000 30, archived 1736121600000 32] ! 2)"
proof -
  let ?ws = "[archived 1737936000000 31, archived 1737331200000 30, archived 1736121600000 32]"
  have p2: "streak_prefix ?ws 2"
    by (simp add: streak_prefix_def archived_def getTime_def msPerDay_def numeral_2_eq_2
        All_less_Suc)
  have g: "goalAchieved (?ws ! 2)" by (simp add: archived_def)
  have c: "calculateStreak ?ws = 2" by code_simp
  from calculateStreak_longest_prefix [of ?ws] have "\<not> streak_prefix ?ws 3"
    unfolding c by fastforce
  with c p2 g show ?thesis by blast
qed

section \<open>Daily store: properties\<close>










section \<open>Dates of the platform: the calendar is the Gregorian one\<close>

text \<open>
  \<open>YearFromTime\<close> meets its specification in ECMA-262: it is the largest year whose first
  day is not after the day of the time value. Days of the month lie between 1 and 31.
\<close>

lemma div_bounds:
  fixes x k :: int
  assumes "0 < k"
  shows "k * (x div k) \<le> x" and "x \<le> k * (x div k) + (k - 1)"
proof -
  have "x = k * (x div k) + x mod k" by simp
  moreover have "0 \<le> x mod k" "x mod k < k" using assms by simp_all
  ultimately show "k * (x div k) \<le> x" and "x \<le> k * (x div k) + (k - 1)" by linarith+
qed

lemma DayFromYear_bounds:
  "400 * DayFromYear y \<le> 146097 * (y - 1970) + 589 \<and>
   146097 * (y - 1970) - 506 \<le> 400 * DayFromYear y"
proof -
  define a where "a = (y - 1969) div 4"
  define b where "b = (y - 1901) div 100"
  define c where "c = (y - 1601) div 400"
  have "4 * a \<le> y - 1969" "y - 1969 \<le> 4 * a + 3"
    "100 * b \<le> y - 1901" "y - 1901 \<le> 100 * b + 99"
    "400 * c \<le> y - 1601" "y - 1601 \<le> 400 * c + 399"
    using div_bounds [of 4 "y - 1969"] div_bounds [of 100 "y - 1901"]
      div_bounds [of 400 "y - 1601"]
    by (simp_all add: a_def b_def c_def)
  then have s: "400 * a \<le> 100 * y - 196900" "100 * y - 197200 \<le> 400 * a"
    "400 * b \<le> 4 * y - 7604" "4 * y - 8000 \<le> 400 * b"
    "400 * c \<le> y - 1601" "y - 2000 \<le> 400 * c"
    by simp_all
  have e: "400 * DayFromYear y = 146000 * y - 287620000 + 400 * a - 400 * b + 400 * c"
    by (simp add: DayFromYear_def a_def b_def c_def)
  have "400 * DayFromYear y \<le> 146097 * (y - 1970) + 589"
    unfolding e using s by simp
  moreover have "146097 * (y - 1970) - 506 \<le> 400 * DayFromYear y"
    unfolding e using s by simp
  ultimately show ?thesis by blast
qed

lemma YearFromTime_correct:
  "DayFromYear (YearFromTime t) \<le> Day t \<and> Day t < DayFromYear (YearFromTime t + 1)"
proof -
  define d where "d = Day t"
  define y where "y = 1970 + (400 * d) div 146097"
  have q: "146097 * (y - 1970) \<le> 400 * d" "400 * d \<le> 146097 * (y - 1970) + 146096"
    using div_bounds [of 146097 "400 * d"] by (simp_all add: y_def)
  have "400 * DayFromYear (y - 1) \<le> 400 * d"
    using DayFromYear_bounds [of "y - 1"] q by simp
  then have lo: "DayFromYear (y - 1) \<le> d" by simp
  have "400 * d < 400 * DayFromYear (y + 2)"
    using DayFromYear_bounds [of "y + 2"] q by simp
  then have hi: "d < DayFromYear (y + 2)" by simp
  have "YearFromTime t =
      (if DayFromYear (y + 1) \<le> d then y + 1 else if DayFromYear y \<le> d then y else y - 1)"
    by (simp add: YearFromTime_def Let_def d_def y_def)
  moreover have "d < DayFromYear (2 + y)" using hi by (simp add: add.commute)
  ultimately show ?thesis using lo unfolding d_def [symmetric]
    by (cases "DayFromYear (y + 1) \<le> d"; cases "DayFromYear y \<le> d") simp_all
qed

lemma div_Suc_int:
  fixes a k :: int
  assumes "0 < k"
  shows "(a + 1) div k = a div k + (if (a + 1) mod k = 0 then 1 else 0)"
proof (cases "a mod k = k - 1")
  case True
  have "a = k * (a div k) + a mod k" by simp
  then have "a = k * (a div k) + (k - 1)" using True by simp
  then have e: "a + 1 = k * (a div k + 1) + 0" by (simp add: algebra_simps)
  have r: "(0::int) \<le> 0" "0 < k" using assms by simp_all
  have "(a + 1) div k = a div k + 1" using int_div_pos_eq [OF e r] .
  moreover have "(a + 1) mod k = 0" using int_mod_pos_eq [OF e r] .
  ultimately show ?thesis by simp
next
  case False
  have r: "0 \<le> a mod k + 1" "a mod k + 1 < k"
    using assms False pos_mod_bound [of k a] pos_mod_sign [of k a] by linarith+
  have e: "a + 1 = k * (a div k) + (a mod k + 1)" by simp
  have "(a + 1) div k = a div k"
    using int_div_pos_eq [OF e r] .
  moreover have "(a + 1) mod k = a mod k + 1"
    using int_mod_pos_eq [OF e r] .
  moreover have "0 \<le> a mod k" using assms by simp
  ultimately show ?thesis by simp
qed

lemma DayFromYear_Suc: "DayFromYear (y + 1) = DayFromYear y + DaysInYear y"
proof -
  have a: "(y + 1 - 1969) div 4 = (y - 1969) div 4 + (if y mod 4 = 0 then 1 else 0)"
  proof -
    have "(y - 1968) mod 4 = y mod 4" by presburger
    then show ?thesis using div_Suc_int [of 4 "y - 1969"] by (simp add: algebra_simps)
  qed
  have b: "(y + 1 - 1901) div 100 = (y - 1901) div 100 + (if y mod 100 = 0 then 1 else 0)"
  proof -
    have "(y - 1900) mod 100 = y mod 100"
      using mod_mult_self1 [of "y - 1900" 19 100] by simp
    then show ?thesis using div_Suc_int [of 100 "y - 1901"] by (simp add: algebra_simps)
  qed
  have c: "(y + 1 - 1601) div 400 = (y - 1601) div 400 + (if y mod 400 = 0 then 1 else 0)"
  proof -
    have "(y - 1600) mod 400 = y mod 400"
      using mod_mult_self1 [of "y - 1600" 4 400] by simp
    then show ?thesis using div_Suc_int [of 400 "y - 1601"] by (simp add: algebra_simps)
  qed
  have m1: "y mod 4 = 0" if "y mod 100 = 0"
    using that mod_mod_cancel [of 4 100 y] by simp
  have m2: "y mod 100 = 0" if "y mod 400 = 0"
    using that mod_mod_cancel [of 100 400 y] by simp
  show ?thesis
    unfolding DayFromYear_def DaysInYear_def a b c using m1 m2 by auto
qed


lemma DaysInYear_range: "DaysInYear y = 365 \<or> DaysInYear y = 366"
  by (simp add: DaysInYear_def)

lemma DayFromYear_mono: "y \<le> z \<Longrightarrow> DayFromYear y \<le> DayFromYear z"
proof (induction z rule: int_ge_induct)
  case base
  show ?case by simp
next
  case (step i)
  then show ?case using DayFromYear_Suc [of i] DaysInYear_range [of i] by auto
qed

lemma YearFromTime_largest:
  assumes "DayFromYear y \<le> Day t"
  shows "y \<le> YearFromTime t"
proof (rule ccontr)
  assume "\<not> y \<le> YearFromTime t"
  then have "YearFromTime t + 1 \<le> y" by simp
  from DayFromYear_mono [OF this] YearFromTime_correct [of t] assms show False by simp
qed

lemma DayWithinYear_range:
  "0 \<le> DayWithinYear t \<and> DayWithinYear t < DaysInYear (YearFromTime t)"
  using YearFromTime_correct [of t] DayFromYear_Suc [of "YearFromTime t"]
  by (simp add: DayWithinYear_def)

lemma DateFromTime_range: "1 \<le> DateFromTime t \<and> DateFromTime t \<le> 31"
  using DayWithinYear_range [of t] DaysInYear_range [of "YearFromTime t"]
  by (auto simp: DateFromTime_def MonthFromTime_def MonthStartDay_def InLeapYear_def Let_def)

section \<open>Calendar: properties\<close>

lemma MonthFromTime_range: "0 \<le> MonthFromTime t \<and> MonthFromTime t \<le> 11"
  by (simp add: MonthFromTime_def Let_def)

lemma MakeDay_of_month:
  "0 \<le> m \<Longrightarrow> m \<le> 11 \<Longrightarrow>
   MakeDay y m dt =
     DayFromYear y + MonthStartDay m (if DaysInYear y = 366 then 1 else 0) + dt - 1"
  by (simp add: MakeDay_def Let_def)

lemma MakeDay_current: "MakeDay (YearFromTime t) (MonthFromTime t) dt = Day t - DateFromTime t + dt"
  using MonthFromTime_range [of t]
  by (simp add: MakeDay_of_month DateFromTime_def DayWithinYear_def InLeapYear_def)

lemma Day_TimeWithinDay: "Day t * msPerDay + TimeWithinDay t = t"
  by (simp add: Day_def TimeWithinDay_def)

lemma TimeClip_in_range: "\<bar>t\<bar> \<le> 8640000000000000 \<Longrightarrow> TimeClip t = Some t"
  by (simp add: TimeClip_def)

text \<open>
  \<open>setDate\<close> with the day of the month plus \<open>k\<close> moves the local time by \<open>k\<close> days, across
  month and year boundaries; \<open>setHours\<close> keeps the local day.
\<close>

lemma setDate_relative:
  "setDate tza d (getDate tza d + k) = TimeClip (UTC tza (LocalTime tza d + k * msPerDay))"
proof -
  let ?t = "LocalTime tza d"
  have "MakeDate (MakeDay (YearFromTime ?t) (MonthFromTime ?t) (DateFromTime ?t + k))
          (TimeWithinDay ?t) = (Day ?t + k) * msPerDay + TimeWithinDay ?t"
    by (simp add: MakeDate_def MakeDay_current)
  also have "\<dots> = ?t + k * msPerDay"
    using Day_TimeWithinDay [of ?t] by (simp add: algebra_simps)
  finally show ?thesis
    by (simp add: setDate_def getDate_def Let_def)
qed

lemma setHours_eq:
  "setHours tza d h m s milli =
     TimeClip (UTC tza (Day (LocalTime tza d) * msPerDay + MakeTime h m s milli))"
  by (simp add: setHours_def Let_def MakeDate_def)

lemma Day_shift: "Day (t + k * msPerDay) = Day t + k"
  by (simp add: Day_def msPerDay_def)

lemma Day_of_midnight_plus:
  "0 \<le> x \<Longrightarrow> x < msPerDay \<Longrightarrow> Day (n * msPerDay + x) = n"
  by (simp add: Day_def msPerDay_def)

lemma Day_of_midnight: "Day (n * msPerDay) = n"
  by (simp add: Day_def msPerDay_def)

lemma existsLocally_readOnSameDay: "existsLocally tza x \<Longrightarrow> readOnSameDay tza x"
  by (simp add: existsLocally_def readOnSameDay_def)

lemma setDate_then_setHours:
  assumes day: "readOnSameDay tza (LocalTime tza d + k * msPerDay)"
    and time: "\<bar>UTC tza ((Day (LocalTime tza d) + k) * msPerDay + MakeTime h m s milli)\<bar>
                 \<le> 8640000000000000"
  shows "(case setDate tza d (getDate tza d + k) of
            None \<Rightarrow> None
          | Some r \<Rightarrow> setHours tza r h m s milli) =
         Some (UTC tza ((Day (LocalTime tza d) + k) * msPerDay + MakeTime h m s milli))"
proof -
  let ?x = "LocalTime tza d + k * msPerDay"
  from day have r: "\<bar>UTC tza ?x\<bar> \<le> 8640000000000000"
    and s: "Day (LocalTime tza (UTC tza ?x)) = Day ?x"
    by (simp_all add: readOnSameDay_def)
  have a: "setDate tza d (getDate tza d + k) = Some (UTC tza ?x)"
    unfolding setDate_relative using r by (rule TimeClip_in_range)
  have b: "setHours tza (UTC tza ?x) h m s milli =
      Some (UTC tza ((Day (LocalTime tza d) + k) * msPerDay + MakeTime h m s milli))"
    unfolding setHours_eq s Day_shift using time by (rule TimeClip_in_range)
  show ?thesis unfolding a using b by simp
qed

lemma getDay_range: "0 \<le> getDay tza d \<and> getDay tza d \<le> 6"
  by (simp add: getDay_def WeekDay_def)

lemma daysToMonday_range: "0 \<le> daysToMonday tza d \<and> daysToMonday tza d \<le> 6"
  using getDay_range [of tza d] by (auto simp: daysToMonday_def)

lemma weekday_arith:
  fixes x :: int
  shows "(if (x + 4) mod 7 = 0 then 6 else (x + 4) mod 7 - 1) = (x + 3) mod 7"
    and "(x - (x + 3) mod 7 + 4) mod 7 = 1"
    and "(x - (x + 3) mod 7 + 6 + 4) mod 7 = 0"
    and "(x + 4) mod 7 = 0 \<Longrightarrow> (x - 6 + 4) mod 7 = 1"
  by presburger+

lemma daysToMonday_mod: "daysToMonday tza d = (Day (LocalTime tza d) + 3) mod 7"
  unfolding daysToMonday_def getDay_def WeekDay_def by (rule weekday_arith(1))

lemma Day_weekStartLocal:
  "Day (weekStartLocal tza d) = Day (LocalTime tza d) - daysToMonday tza d"
  by (simp add: weekStartLocal_def Day_of_midnight)

lemma WeekDay_weekStartLocal: "WeekDay (weekStartLocal tza d) = 1"
  unfolding WeekDay_def Day_weekStartLocal daysToMonday_mod by (rule weekday_arith(2))

lemma weekEndLocal_eq:
  "weekEndLocal tza d =
     (Day (LocalTime tza d) - daysToMonday tza d + 6) * msPerDay + MakeTime 23 59 59 999"
  by (simp add: weekEndLocal_def weekStartLocal_def algebra_simps)

lemma Day_weekEndLocal:
  "Day (weekEndLocal tza d) = Day (LocalTime tza d) - daysToMonday tza d + 6"
  unfolding weekEndLocal_eq
  by (rule Day_of_midnight_plus)
     (simp_all add: MakeTime_def msPerDay_def msPerHour_def msPerMinute_def msPerSecond_def)

lemma WeekDay_weekEndLocal: "WeekDay (weekEndLocal tza d) = 0"
  unfolding WeekDay_def Day_weekEndLocal daysToMonday_mod by (rule weekday_arith(3))

text \<open>
  The week start and the week end, when the local times that the source passes through can
  be read: the time of the date on the Monday and then midnight of the Monday; midnight of
  the Sunday and then the last millisecond of the Sunday.
\<close>

lemma getWeekStart_eq:
  assumes monday_time: "readOnSameDay tza (LocalTime tza d - daysToMonday tza d * msPerDay)"
    and monday_midnight: "existsLocally tza (weekStartLocal tza d)"
  shows "getWeekStart tza d = Some (UTC tza (weekStartLocal tza d))"
proof -
  have u: "getWeekStart tza d =
      (case setDate tza d (getDate tza d + (- daysToMonday tza d)) of
         None \<Rightarrow> None
       | Some r \<Rightarrow> setHours tza r 0 0 0 0)"
    by (simp add: getWeekStart_def Let_def daysToMonday_def)
  have x: "LocalTime tza d + (- daysToMonday tza d) * msPerDay =
      LocalTime tza d - daysToMonday tza d * msPerDay"
    by simp
  have y: "(Day (LocalTime tza d) + (- daysToMonday tza d)) * msPerDay + MakeTime 0 0 0 0 =
      weekStartLocal tza d"
    by (simp add: weekStartLocal_def MakeTime_def)
  have h1: "readOnSameDay tza (LocalTime tza d + (- daysToMonday tza d) * msPerDay)"
    unfolding x by (rule monday_time)
  have h2: "\<bar>UTC tza ((Day (LocalTime tza d) + (- daysToMonday tza d)) * msPerDay +
      MakeTime 0 0 0 0)\<bar> \<le> 8640000000000000"
    unfolding y using monday_midnight by (simp add: existsLocally_def)
  show ?thesis
    unfolding u setDate_then_setHours [OF h1 h2] y by (rule refl)
qed

lemma getWeekEnd_eq:
  assumes ws: "getWeekStart tza d = Some ws"
    and l: "LocalTime tza ws = weekStartLocal tza d"
    and sunday_midnight: "readOnSameDay tza (weekStartLocal tza d + 6 * msPerDay)"
    and sunday_end: "existsLocally tza (weekEndLocal tza d)"
  shows "getWeekEnd tza d = Some (UTC tza (weekEndLocal tza d))"
proof -
  have u: "getWeekEnd tza d =
      (case setDate tza ws (getDate tza ws + 6) of
         None \<Rightarrow> None
       | Some r \<Rightarrow> setHours tza r 23 59 59 999)"
    by (simp add: getWeekEnd_def ws Let_def)
  have y: "(Day (LocalTime tza ws) + 6) * msPerDay + MakeTime 23 59 59 999 = weekEndLocal tza d"
    unfolding l Day_weekStartLocal weekEndLocal_eq by (rule refl)
  have h1: "readOnSameDay tza (LocalTime tza ws + 6 * msPerDay)"
    unfolding l by (rule sunday_midnight)
  have h2: "\<bar>UTC tza ((Day (LocalTime tza ws) + 6) * msPerDay + MakeTime 23 59 59 999)\<bar>
      \<le> 8640000000000000"
    unfolding y using sunday_end by (simp add: existsLocally_def)
  show ?thesis
    unfolding u setDate_then_setHours [OF h1 h2] y by (rule refl)
qed

lemma time_fields_midnight:
  "HourFromTime (n * msPerDay) = 0 \<and> MinFromTime (n * msPerDay) = 0 \<and>
   SecFromTime (n * msPerDay) = 0 \<and> msFromTime (n * msPerDay) = 0"
proof -
  have h: "n * msPerDay = (n * 24) * msPerHour" "n * msPerDay = (n * 1440) * msPerMinute"
    "n * msPerDay = (n * 86400) * msPerSecond"
    by (simp_all add: msPerDay_def msPerHour_def msPerMinute_def msPerSecond_def)
  have "HourFromTime (n * msPerDay) = 0"
    unfolding HourFromTime_def h(1) by (simp add: msPerHour_def)
  moreover have "MinFromTime (n * msPerDay) = 0"
    unfolding MinFromTime_def h(2) by (simp add: msPerMinute_def)
  moreover have "SecFromTime (n * msPerDay) = 0"
    unfolding SecFromTime_def h(3) by (simp add: msPerSecond_def)
  moreover have "msFromTime (n * msPerDay) = 0"
    unfolding msFromTime_def h(3) by (simp add: msPerSecond_def)
  ultimately show ?thesis by blast
qed

lemma div_mod_of_parts:
  fixes a b c k :: int
  assumes "0 \<le> a" "a < c" "0 \<le> b" "b < k" "0 < c"
  shows "((q * k + b) * c + a) div c mod k = b" and "((q * k + b) * c + a) mod c = a"
proof -
  have "((q * k + b) * c + a) div c = (q * k + b) + a div c"
    using assms(5) by (simp add: div_mult_self3)
  also have "a div c = 0" using assms(1,2) by simp
  finally show "((q * k + b) * c + a) div c mod k = b" using assms(3,4) by simp
  show "((q * k + b) * c + a) mod c = a" using assms(1,2) by simp
qed

lemma time_fields_end_of_day:
  "HourFromTime (n * msPerDay + MakeTime 23 59 59 999) = 23 \<and>
   MinFromTime (n * msPerDay + MakeTime 23 59 59 999) = 59 \<and>
   SecFromTime (n * msPerDay + MakeTime 23 59 59 999) = 59 \<and>
   msFromTime (n * msPerDay + MakeTime 23 59 59 999) = 999"
proof -
  let ?t = "n * msPerDay + MakeTime 23 59 59 999"
  have h: "?t = (n * 24 + 23) * 3600000 + 3599999"
    "?t = ((n * 24 + 23) * 60 + 59) * 60000 + 59999"
    "?t = ((n * 1440 + 1439) * 60 + 59) * 1000 + 999"
    by (simp_all add: MakeTime_def msPerDay_def msPerHour_def msPerMinute_def msPerSecond_def)
  have "HourFromTime ?t = 23"
    unfolding HourFromTime_def msPerHour_def h(1) by (rule div_mod_of_parts) simp_all
  moreover have "MinFromTime ?t = 59"
    unfolding MinFromTime_def msPerMinute_def h(2) by (rule div_mod_of_parts) simp_all
  moreover have "SecFromTime ?t = 59"
    unfolding SecFromTime_def msPerSecond_def h(3) by (rule div_mod_of_parts) simp_all
  moreover have "msFromTime ?t = 999"
    unfolding msFromTime_def msPerSecond_def h(3) by (rule div_mod_of_parts) simp_all
  ultimately show ?thesis by blast
qed

lemma calendar_fields_of_Day:
  assumes "Day a = Day b"
  shows "YearFromTime a = YearFromTime b \<and> MonthFromTime a = MonthFromTime b \<and>
         DateFromTime a = DateFromTime b \<and> WeekDay a = WeekDay b"
proof -
  have y: "YearFromTime a = YearFromTime b" using assms by (simp add: YearFromTime_def)
  have l: "InLeapYear a = InLeapYear b" using y by (simp add: InLeapYear_def)
  have w: "DayWithinYear a = DayWithinYear b" using y assms by (simp add: DayWithinYear_def)
  have m: "MonthFromTime a = MonthFromTime b" using l w by (simp add: MonthFromTime_def)
  have d: "DateFromTime a = DateFromTime b" using l w m by (simp add: DateFromTime_def)
  from y m d assms show ?thesis by (simp add: WeekDay_def)
qed

text \<open>
  In a zone of constant offset every local time within the range of time values exists, so
  there the week start is the Monday's midnight for every date whose Monday is in range.
\<close>

lemma existsLocally_fixedOffset:
  "existsLocally (fixedOffset k) x \<longleftrightarrow> \<bar>x - k\<bar> \<le> 8640000000000000"
  by (simp add: existsLocally_def fixedOffset_def UTC_def LocalTime_def)

lemma getWeekStart_fixedOffset:
  assumes "\<bar>d - daysToMonday (fixedOffset k) d * msPerDay\<bar> \<le> 8640000000000000"
    and "\<bar>weekStartLocal (fixedOffset k) d - k\<bar> \<le> 8640000000000000"
  shows "getWeekStart (fixedOffset k) d = Some (weekStartLocal (fixedOffset k) d - k)"
proof -
  have e: "LocalTime (fixedOffset k) d - daysToMonday (fixedOffset k) d * msPerDay - k =
      d - daysToMonday (fixedOffset k) d * msPerDay"
    by (simp add: LocalTime_def fixedOffset_def)
  have "existsLocally (fixedOffset k)
      (LocalTime (fixedOffset k) d - daysToMonday (fixedOffset k) d * msPerDay)"
    unfolding existsLocally_fixedOffset e by (rule assms(1))
  then have a: "readOnSameDay (fixedOffset k)
      (LocalTime (fixedOffset k) d - daysToMonday (fixedOffset k) d * msPerDay)"
    by (rule existsLocally_readOnSameDay)
  have b: "existsLocally (fixedOffset k) (weekStartLocal (fixedOffset k) d)"
    unfolding existsLocally_fixedOffset by (rule assms(2))
  have "UTC (fixedOffset k) (weekStartLocal (fixedOffset k) d) =
      weekStartLocal (fixedOffset k) d - k"
    by (simp add: UTC_def fixedOffset_def)
  with getWeekStart_eq [OF a b] show ?thesis by simp
qed

text \<open>
  Where a transition skips the Monday's midnight the week start is not that midnight. In the
  zone whose clocks go from 00:00 to 01:00 on Monday 22 March 2021, the week start of
  Wednesday 24 March 2021, 10:00 local time, is the Monday at 01:00.
\<close>

lemma getWeekStart_skipped_midnight:
  "getWeekStart midnightSkipZone 1616563800000 = Some 1616358600000 \<and>
   getDay midnightSkipZone 1616358600000 = 1 \<and>
   getDate midnightSkipZone 1616358600000 = 22 \<and>
   getHours midnightSkipZone 1616358600000 = 1 \<and>
   \<not> existsLocally midnightSkipZone (weekStartLocal midnightSkipZone 1616563800000)"
  by code_simp

text \<open>
  Claim C7, as the source has it. Let the time zone read the time of the date on the Monday
  on or before it as an instant of that Monday, and let local midnight of that Monday exist.
  Then \<open>getWeekStart\<close> returns a valid date, which is local midnight of that Monday: it is a
  Monday, its local time of day is 00:00:00.000, and its local day is the date's day less 6
  on a Sunday and less the day of the week minus 1 otherwise, so at most 6 days back. On a
  Sunday the result is that of every time of the Monday six days earlier whose local time
  the zone reads on that Monday; on a Monday it is local midnight of the same date. If
  moreover the zone reads local midnight of the Sunday six days after the Monday as an
  instant of that Sunday, and the local time 23:59:59.999 of that Sunday exists, then
  \<open>getWeekEnd\<close> returns a valid date, which is that Sunday at 23:59:59.999 local time. Days
  are counted on the day number of the local time value, so month and year boundaries play
  no part. The time zone is any function from time values to offsets, so zones with
  daylight saving transitions are included.
\<close>

theorem getWeekStart_is_monday_midnight:
  assumes monday_time: "readOnSameDay tza (LocalTime tza d - daysToMonday tza d * msPerDay)"
    and monday_midnight: "existsLocally tza (weekStartLocal tza d)"
  shows "\<exists>ws. getWeekStart tza d = Some ws \<and>
     LocalTime tza ws = weekStartLocal tza d \<and>
     getDay tza ws = 1 \<and>
     getHours tza ws = 0 \<and> getMinutes tza ws = 0 \<and>
     getSeconds tza ws = 0 \<and> getMilliseconds tza ws = 0 \<and>
     Day (LocalTime tza ws) =
       Day (LocalTime tza d) - (if getDay tza d = 0 then 6 else getDay tza d - 1) \<and>
     Day (LocalTime tza ws) \<le> Day (LocalTime tza d) \<and>
     Day (LocalTime tza d) \<le> Day (LocalTime tza ws) + 6 \<and>
     (getDay tza d = 0 \<longrightarrow>
        (\<forall>m. Day (LocalTime tza m) = Day (LocalTime tza d) - 6 \<and>
             readOnSameDay tza (LocalTime tza m) \<longrightarrow>
           getDay tza m = 1 \<and> getWeekStart tza m = Some ws)) \<and>
     (getDay tza d = 1 \<longrightarrow>
        setHours tza d 0 0 0 0 = Some ws \<and>
        getFullYear tza ws = getFullYear tza d \<and>
        getMonth tza ws = getMonth tza d \<and>
        getDate tza ws = getDate tza d) \<and>
     (readOnSameDay tza (weekStartLocal tza d + 6 * msPerDay) \<and>
      existsLocally tza (weekEndLocal tza d) \<longrightarrow>
        (\<exists>we. getWeekEnd tza d = Some we \<and>
           LocalTime tza we = LocalTime tza ws + 6 * msPerDay + MakeTime 23 59 59 999 \<and>
           Day (LocalTime tza we) = Day (LocalTime tza ws) + 6 \<and>
           getDay tza we = 0 \<and>
           getHours tza we = 23 \<and> getMinutes tza we = 59 \<and>
           getSeconds tza we = 59 \<and> getMilliseconds tza we = 999))"
proof -
  let ?L = "LocalTime tza"
  define ws where "ws = UTC tza (weekStartLocal tza d)"
  note r = daysToMonday_range [of tza d]
  have gws: "getWeekStart tza d = Some ws"
    unfolding ws_def using monday_time monday_midnight by (rule getWeekStart_eq)
  have lws: "?L ws = weekStartLocal tza d"
    unfolding ws_def using monday_midnight by (simp add: existsLocally_def)
  have dws: "Day (?L ws) = Day (?L d) - daysToMonday tza d"
    unfolding lws by (rule Day_weekStartLocal)
  have monday: "getDay tza ws = 1"
    unfolding getDay_def lws by (rule WeekDay_weekStartLocal)
  have midnight: "getHours tza ws = 0 \<and> getMinutes tza ws = 0 \<and>
      getSeconds tza ws = 0 \<and> getMilliseconds tza ws = 0"
    using time_fields_midnight [of "Day (?L d) - daysToMonday tza d"]
    by (simp add: getHours_def getMinutes_def getSeconds_def getMilliseconds_def lws
        weekStartLocal_def)
  have day: "Day (?L ws) = Day (?L d) - (if getDay tza d = 0 then 6 else getDay tza d - 1)"
    by (simp add: dws daysToMonday_def)
  have before: "Day (?L ws) \<le> Day (?L d) \<and> Day (?L d) \<le> Day (?L ws) + 6"
    using r by (simp add: dws)
  have sunday: "getDay tza m = 1 \<and> getWeekStart tza m = Some ws"
    if s: "getDay tza d = 0"
      and m: "Day (?L m) = Day (?L d) - 6 \<and> readOnSameDay tza (?L m)" for m
  proof -
    from m have md: "Day (?L m) = Day (?L d) - 6" and mr: "readOnSameDay tza (?L m)"
      by simp_all
    have gm: "getDay tza m = 1"
      using s unfolding getDay_def WeekDay_def md by (rule weekday_arith(4))
    have z: "daysToMonday tza d = 6" "daysToMonday tza m = 0"
      using s gm by (simp_all add: daysToMonday_def)
    have e: "weekStartLocal tza m = weekStartLocal tza d"
      by (simp add: weekStartLocal_def z md)
    have a: "readOnSameDay tza (?L m - daysToMonday tza m * msPerDay)"
      using mr by (simp add: z)
    have b: "existsLocally tza (weekStartLocal tza m)"
      unfolding e by (rule monday_midnight)
    have "getWeekStart tza m = Some ws"
      unfolding ws_def using getWeekStart_eq [OF a b] by (simp add: e)
    with gm show ?thesis by simp
  qed
  have same: "setHours tza d 0 0 0 0 = Some ws \<and> getFullYear tza ws = getFullYear tza d \<and>
      getMonth tza ws = getMonth tza d \<and> getDate tza ws = getDate tza d"
    if "getDay tza d = 1"
  proof -
    from that have z: "daysToMonday tza d = 0" by (simp add: daysToMonday_def)
    have w: "Day (?L d) * msPerDay + MakeTime 0 0 0 0 = weekStartLocal tza d"
      by (simp add: weekStartLocal_def z MakeTime_def)
    have "\<bar>UTC tza (weekStartLocal tza d)\<bar> \<le> 8640000000000000"
      using monday_midnight by (simp add: existsLocally_def)
    then have e: "setHours tza d 0 0 0 0 = Some ws"
      unfolding setHours_eq w ws_def by (rule TimeClip_in_range)
    have "Day (?L ws) = Day (?L d)" by (simp add: dws z)
    from calendar_fields_of_Day [OF this] e show ?thesis
      by (simp add: getFullYear_def getMonth_def getDate_def)
  qed
  have weekend: "\<exists>we. getWeekEnd tza d = Some we \<and>
      ?L we = ?L ws + 6 * msPerDay + MakeTime 23 59 59 999 \<and>
      Day (?L we) = Day (?L ws) + 6 \<and> getDay tza we = 0 \<and>
      getHours tza we = 23 \<and> getMinutes tza we = 59 \<and>
      getSeconds tza we = 59 \<and> getMilliseconds tza we = 999"
    if h: "readOnSameDay tza (weekStartLocal tza d + 6 * msPerDay) \<and>
      existsLocally tza (weekEndLocal tza d)"
  proof -
    define we where "we = UTC tza (weekEndLocal tza d)"
    from h have h1: "readOnSameDay tza (weekStartLocal tza d + 6 * msPerDay)"
      and h2: "existsLocally tza (weekEndLocal tza d)"
      by simp_all
    have gwe: "getWeekEnd tza d = Some we"
      unfolding we_def using gws lws h1 h2 by (rule getWeekEnd_eq)
    have lwe: "?L we = weekEndLocal tza d"
      unfolding we_def using h2 by (simp add: existsLocally_def)
    have lwe': "?L we = ?L ws + 6 * msPerDay + MakeTime 23 59 59 999"
      unfolding lwe lws by (simp add: weekEndLocal_def)
    have dwe: "Day (?L we) = Day (?L ws) + 6"
      unfolding lwe dws by (rule Day_weekEndLocal)
    have sun: "getDay tza we = 0"
      unfolding getDay_def lwe by (rule WeekDay_weekEndLocal)
    have eod: "getHours tza we = 23 \<and> getMinutes tza we = 59 \<and>
        getSeconds tza we = 59 \<and> getMilliseconds tza we = 999"
      using time_fields_end_of_day [of "Day (?L d) - daysToMonday tza d + 6"]
      by (simp add: getHours_def getMinutes_def getSeconds_def getMilliseconds_def lwe
          weekEndLocal_eq)
    from gwe lwe' dwe sun eod show ?thesis by blast
  qed
  from gws lws monday midnight day before sunday same weekend show ?thesis by blast
qed

text \<open>
  The witness is in the zone of Europe/Berlin, in the week that ends with the change to
  summer time: Sunday 30 March 2025, 12:00 local time (two hours east of UTC), belongs to
  the week of Monday 24 March 2025, whose midnight is one hour east of UTC, and the week
  ends on that Sunday at 23:59:59.999, two hours east of UTC. Monday 24 March 2025, 12:00
  local time, has the same week start.
\<close>

theorem getWeekStart_is_monday_midnight_witness:
  "getDay europeBerlin2025 1743328800000 = 0 \<and>
   getWeekStart europeBerlin2025 1743328800000 = Some 1742770800000 \<and>
   getDay europeBerlin2025 1742770800000 = 1 \<and>
   getFullYear europeBerlin2025 1742770800000 = 2025 \<and>
   getMonth europeBerlin2025 1742770800000 = 2 \<and>
   getDate europeBerlin2025 1742770800000 = 24 \<and>
   getHours europeBerlin2025 1742770800000 = 0 \<and>
   getMinutes europeBerlin2025 1742770800000 = 0 \<and>
   getDay europeBerlin2025 1742814000000 = 1 \<and>
   getWeekStart europeBerlin2025 1742814000000 = Some 1742770800000 \<and>
   setHours europeBerlin2025 1742814000000 0 0 0 0 = Some 1742770800000 \<and>
   getWeekEnd europeBerlin2025 1743328800000 = Some 1743371999999 \<and>
   getDay europeBerlin2025 1743371999999 = 0 \<and>
   getMonth europeBerlin2025 1743371999999 = 2 \<and>
   getDate europeBerlin2025 1743371999999 = 30 \<and>
   getHours europeBerlin2025 1743371999999 = 23 \<and>
   getMilliseconds europeBerlin2025 1743371999999 = 999"
proof -
  let ?z = europeBerlin2025
  have h1: "readOnSameDay ?z (LocalTime ?z 1743328800000 -
      daysToMonday ?z 1743328800000 * msPerDay)"
    by code_simp
  have h2: "existsLocally ?z (weekStartLocal ?z 1743328800000)" by code_simp
  have h3: "readOnSameDay ?z (weekStartLocal ?z 1743328800000 + 6 * msPerDay) \<and>
      existsLocally ?z (weekEndLocal ?z 1743328800000)"
    by code_simp
  have k1: "readOnSameDay ?z (LocalTime ?z 1742814000000 -
      daysToMonday ?z 1742814000000 * msPerDay)"
    by code_simp
  have k2: "existsLocally ?z (weekStartLocal ?z 1742814000000)" by code_simp
  have sunday: "getDay ?z 1743328800000 = 0" by code_simp
  have monday: "getDay ?z 1742814000000 = 1" by code_simp
  have six: "Day (LocalTime ?z 1742814000000) = Day (LocalTime ?z 1743328800000) - 6 \<and>
      readOnSameDay ?z (LocalTime ?z 1742814000000)"
    by code_simp
  have ws: "getWeekStart ?z 1743328800000 = Some 1742770800000" by code_simp
  have we: "getWeekEnd ?z 1743328800000 = Some 1743371999999" by code_simp
  have wm: "getWeekStart ?z 1742814000000 = Some 1742770800000" by code_simp
  have cal: "getFullYear ?z 1742770800000 = 2025" "getMonth ?z 1742770800000 = 2"
    "getDate ?z 1742770800000 = 24" "getMonth ?z 1743371999999 = 2"
    "getDate ?z 1743371999999 = 30"
    by code_simp+
  from getWeekStart_is_monday_midnight [OF h1 h2] ws
  have t: "getDay ?z 1742770800000 = 1 \<and>
      getHours ?z 1742770800000 = 0 \<and> getMinutes ?z 1742770800000 = 0 \<and>
      (getDay ?z 1743328800000 = 0 \<longrightarrow>
        (\<forall>m. Day (LocalTime ?z m) = Day (LocalTime ?z 1743328800000) - 6 \<and>
             readOnSameDay ?z (LocalTime ?z m) \<longrightarrow>
           getDay ?z m = 1 \<and> getWeekStart ?z m = Some 1742770800000)) \<and>
      (readOnSameDay ?z (weekStartLocal ?z 1743328800000 + 6 * msPerDay) \<and>
       existsLocally ?z (weekEndLocal ?z 1743328800000) \<longrightarrow>
        (\<exists>we. getWeekEnd ?z 1743328800000 = Some we \<and> getDay ?z we = 0 \<and>
           getHours ?z we = 23 \<and> getMilliseconds ?z we = 999))"
    by auto
  from getWeekStart_is_monday_midnight [OF k1 k2] wm monday
  have u: "setHours ?z 1742814000000 0 0 0 0 = Some 1742770800000"
    by auto
  from t have a: "getDay ?z 1742770800000 = 1 \<and>
      getHours ?z 1742770800000 = 0 \<and> getMinutes ?z 1742770800000 = 0"
    by blast
  from t sunday six have b: "getWeekStart ?z 1742814000000 = Some 1742770800000"
    by blast
  from t h3 we have c: "getDay ?z 1743371999999 = 0 \<and> getHours ?z 1743371999999 = 23 \<and>
      getMilliseconds ?z 1743371999999 = 999"
    by auto
  from sunday monday ws we a b c u cal show ?thesis by blast
qed

text \<open>
  The claim as written is for every date. At the largest time value, a Saturday, in the
  zone UTC, \<open>getWeekStart\<close> returns the Monday five days earlier, and \<open>getWeekEnd\<close> returns
  the Invalid Date: the Sunday six days after that Monday is beyond the range of time
  values, and \<open>setDate\<close> clips it.
\<close>

theorem getWeekEnd_invalid_date_counterexample:
  "getDay (fixedOffset 0) 8640000000000000 = 6 \<and>
   getWeekStart (fixedOffset 0) 8640000000000000 = Some 8639999568000000 \<and>
   setDate (fixedOffset 0) 8639999568000000 (getDate (fixedOffset 0) 8639999568000000 + 6) = None \<and>
   getWeekEnd (fixedOffset 0) 8640000000000000 = None"
  by code_simp

end
